theory Spec2Isabelle
  imports Main "HOL-Library.AList"
begin

section \<open>Shared vocabulary\<close>

text \<open>
  The station's database layer (\<^verbatim>\<open>libs/database/t_*.py\<close>) is a set of tables. Each table
  owns an in-process cache pool and talks to two external services: a Redis cache (the
  volatile sink, \<^verbatim>\<open>self._redis\<close>) and a file storage (the durable sink, \<^verbatim>\<open>self._dos\<close>).

  Identifiers (\<^verbatim>\<open>ID\<close>) are string-like values. Timestamps are seconds; only their order
  and sums matter here, so they are integers. Every \<^verbatim>\<open>await\<close> is a plain call: one
  operation runs to its end before the next one starts, and one operation reads the clock
  once (\<open>now\<close>).

  The Python exceptions an operation can end in are values of \<open>py_error\<close>.
\<close>

type_synonym ID = string

datatype py_error = TypeError | ValueError | AttributeError | AssertionError

subsection \<open>The external sinks\<close>

text \<open>
  The sink classes (\<^verbatim>\<open>libs/database/redis\<close>, \<^verbatim>\<open>libs/database/dos\<close>) are opaque services:
  a call takes the state of the outside world \<open>'w\<close> and returns its answer with the new
  world. A table is given the methods it calls as a record of functions, so every result
  below holds for every implementation of the sinks, failing ones included.
\<close>

record Command =
  time :: "int option"
  body :: "ID list"

record 'w UserCache =
  redis_get_contacts :: "ID \<Rightarrow> 'w \<Rightarrow> ID list option \<times> 'w"
  redis_save_contacts :: "ID list \<Rightarrow> ID \<Rightarrow> 'w \<Rightarrow> bool \<times> 'w"
  redis_get_contacts_command :: "ID \<Rightarrow> 'w \<Rightarrow> Command option \<times> 'w"
  redis_save_contacts_command :: "Command \<Rightarrow> ID \<Rightarrow> 'w \<Rightarrow> bool \<times> 'w"
  redis_get_block_command :: "ID \<Rightarrow> 'w \<Rightarrow> Command option \<times> 'w"
  redis_save_block_command :: "Command \<Rightarrow> ID \<Rightarrow> 'w \<Rightarrow> bool \<times> 'w"
  redis_get_mute_command :: "ID \<Rightarrow> 'w \<Rightarrow> Command option \<times> 'w"
  redis_save_mute_command :: "Command \<Rightarrow> ID \<Rightarrow> 'w \<Rightarrow> bool \<times> 'w"

record 'w UserStorage =
  dos_get_contacts :: "ID \<Rightarrow> 'w \<Rightarrow> ID list option \<times> 'w"
  dos_save_contacts :: "ID list \<Rightarrow> ID \<Rightarrow> 'w \<Rightarrow> bool \<times> 'w"
  dos_get_contacts_command :: "ID \<Rightarrow> 'w \<Rightarrow> Command option \<times> 'w"
  dos_save_contacts_command :: "Command \<Rightarrow> ID \<Rightarrow> 'w \<Rightarrow> bool \<times> 'w"
  dos_get_block_command :: "ID \<Rightarrow> 'w \<Rightarrow> Command option \<times> 'w"
  dos_save_block_command :: "Command \<Rightarrow> ID \<Rightarrow> 'w \<Rightarrow> bool \<times> 'w"
  dos_get_mute_command :: "ID \<Rightarrow> 'w \<Rightarrow> Command option \<times> 'w"
  dos_save_mute_command :: "Command \<Rightarrow> ID \<Rightarrow> 'w \<Rightarrow> bool \<times> 'w"

record Document =
  doc_identifier :: ID
  doc_type :: string
  doc_time :: "int option"
  valid :: bool

record 'w DocumentCache =
  redis_load_documents :: "ID \<Rightarrow> 'w \<Rightarrow> Document list option \<times> 'w"
  redis_save_documents :: "Document list \<Rightarrow> ID \<Rightarrow> 'w \<Rightarrow> bool \<times> 'w"

record 'w DocumentStorage =
  dos_load_documents :: "ID \<Rightarrow> 'w \<Rightarrow> Document list option \<times> 'w"
  dos_save_documents :: "Document list \<Rightarrow> ID \<Rightarrow> 'w \<Rightarrow> bool \<times> 'w"
  dos_scan_documents :: "'w \<Rightarrow> Document list option \<times> 'w"

record ('w, 'dev) DeviceCache =
  redis_get_devices :: "ID \<Rightarrow> 'w \<Rightarrow> 'dev list option \<times> 'w"
  redis_save_devices :: "'dev list \<Rightarrow> ID \<Rightarrow> 'w \<Rightarrow> bool \<times> 'w"

record ('w, 'dev) DeviceStorage =
  dos_get_devices :: "ID \<Rightarrow> 'w \<Rightarrow> 'dev list option \<times> 'w"
  dos_save_devices :: "'dev list \<Rightarrow> ID \<Rightarrow> 'w \<Rightarrow> bool \<times> 'w"

section \<open>The read and write cascades of the tasks\<close>

subsection \<open>\<^verbatim>\<open>t_user.py\<close>: UsrTask, ConTask, BloTask, MutTask\<close>

text \<open>
  \<^verbatim>\<open>_read_data\<close> asks Redis; a result that \<^verbatim>\<open>is not None\<close> is returned. Otherwise it asks
  the storage and, when that answers, saves the answer into Redis (the result of that save
  is dropped) and returns it. Falling off the end returns \<^verbatim>\<open>None\<close>.
  \<^verbatim>\<open>_write_data\<close> awaits both saves and returns \<^verbatim>\<open>ok1 or ok2\<close>.
\<close>

definition UsrTask_read_data ::
  "'w UserCache \<Rightarrow> 'w UserStorage \<Rightarrow> ID \<Rightarrow> 'w \<Rightarrow> ID list option \<times> 'w" where
  "UsrTask_read_data redis dos user w =
     (case redis_get_contacts redis user w of
        (Some contacts, w1) \<Rightarrow> (Some contacts, w1)
      | (None, w1) \<Rightarrow>
          (case dos_get_contacts dos user w1 of
             (Some contacts, w2) \<Rightarrow>
               (let (_, w3) = redis_save_contacts redis contacts user w2
                in (Some contacts, w3))
           | (None, w2) \<Rightarrow> (None, w2)))"

definition UsrTask_write_data ::
  "'w UserCache \<Rightarrow> 'w UserStorage \<Rightarrow> ID \<Rightarrow> ID list \<Rightarrow> 'w \<Rightarrow> bool \<times> 'w" where
  "UsrTask_write_data redis dos user val w =
     (let (ok1, w1) = redis_save_contacts redis val user w;
          (ok2, w2) = dos_save_contacts dos val user w1
      in (ok1 \<or> ok2, w2))"

definition ConTask_read_data ::
  "'w UserCache \<Rightarrow> 'w UserStorage \<Rightarrow> ID \<Rightarrow> 'w \<Rightarrow> Command option \<times> 'w" where
  "ConTask_read_data redis dos user w =
     (case redis_get_contacts_command redis user w of
        (Some cmd, w1) \<Rightarrow> (Some cmd, w1)
      | (None, w1) \<Rightarrow>
          (case dos_get_contacts_command dos user w1 of
             (Some cmd, w2) \<Rightarrow>
               (let (_, w3) = redis_save_contacts_command redis cmd user w2
                in (Some cmd, w3))
           | (None, w2) \<Rightarrow> (None, w2)))"

definition ConTask_write_data ::
  "'w UserCache \<Rightarrow> 'w UserStorage \<Rightarrow> ID \<Rightarrow> Command \<Rightarrow> 'w \<Rightarrow> bool \<times> 'w" where
  "ConTask_write_data redis dos user val w =
     (let (ok1, w1) = redis_save_contacts_command redis val user w;
          (ok2, w2) = dos_save_contacts_command dos val user w1
      in (ok1 \<or> ok2, w2))"

definition BloTask_read_data ::
  "'w UserCache \<Rightarrow> 'w UserStorage \<Rightarrow> ID \<Rightarrow> 'w \<Rightarrow> Command option \<times> 'w" where
  "BloTask_read_data redis dos user w =
     (case redis_get_block_command redis user w of
        (Some cmd, w1) \<Rightarrow> (Some cmd, w1)
      | (None, w1) \<Rightarrow>
          (case dos_get_block_command dos user w1 of
             (Some cmd, w2) \<Rightarrow>
               (let (_, w3) = redis_save_block_command redis cmd user w2
                in (Some cmd, w3))
           | (None, w2) \<Rightarrow> (None, w2)))"

definition BloTask_write_data ::
  "'w UserCache \<Rightarrow> 'w UserStorage \<Rightarrow> ID \<Rightarrow> Command \<Rightarrow> 'w \<Rightarrow> bool \<times> 'w" where
  "BloTask_write_data redis dos user val w =
     (let (ok1, w1) = redis_save_block_command redis val user w;
          (ok2, w2) = dos_save_block_command dos val user w1
      in (ok1 \<or> ok2, w2))"

definition MutTask_read_data ::
  "'w UserCache \<Rightarrow> 'w UserStorage \<Rightarrow> ID \<Rightarrow> 'w \<Rightarrow> Command option \<times> 'w" where
  "MutTask_read_data redis dos user w =
     (case redis_get_mute_command redis user w of
        (Some cmd, w1) \<Rightarrow> (Some cmd, w1)
      | (None, w1) \<Rightarrow>
          (case dos_get_mute_command dos user w1 of
             (Some cmd, w2) \<Rightarrow>
               (let (_, w3) = redis_save_mute_command redis cmd user w2
                in (Some cmd, w3))
           | (None, w2) \<Rightarrow> (None, w2)))"

definition MutTask_write_data ::
  "'w UserCache \<Rightarrow> 'w UserStorage \<Rightarrow> ID \<Rightarrow> Command \<Rightarrow> 'w \<Rightarrow> bool \<times> 'w" where
  "MutTask_write_data redis dos user val w =
     (let (ok1, w1) = redis_save_mute_command redis val user w;
          (ok2, w2) = dos_save_mute_command dos val user w1
      in (ok1 \<or> ok2, w2))"

subsection \<open>\<^verbatim>\<open>t_document.py\<close>: DocTask, and \<^verbatim>\<open>t_device.py\<close>: DevTask\<close>

text \<open>
  These two read cascades also skip an empty list: the test is
  \<^verbatim>\<open>docs is not None and len(docs) > 0\<close>, at both tiers.
\<close>

definition DocTask_read_data ::
  "'w DocumentCache \<Rightarrow> 'w DocumentStorage \<Rightarrow> ID \<Rightarrow> 'w \<Rightarrow> Document list option \<times> 'w" where
  "DocTask_read_data redis dos ident w =
     (let (docs, w1) = redis_load_documents redis ident w in
      if docs \<noteq> None \<and> 0 < length (the docs) then (docs, w1)
      else
        (let (docs, w2) = dos_load_documents dos ident w1 in
         if docs \<noteq> None \<and> 0 < length (the docs) then
           (let (_, w3) = redis_save_documents redis (the docs) ident w2 in (docs, w3))
         else (None, w2)))"

definition DocTask_write_data ::
  "'w DocumentCache \<Rightarrow> 'w DocumentStorage \<Rightarrow> ID \<Rightarrow> Document list \<Rightarrow> 'w \<Rightarrow> bool \<times> 'w" where
  "DocTask_write_data redis dos ident val w =
     (let (ok1, w1) = redis_save_documents redis val ident w;
          (ok2, w2) = dos_save_documents dos val ident w1
      in (ok1 \<or> ok2, w2))"

definition DevTask_read_data ::
  "('w, 'dev) DeviceCache \<Rightarrow> ('w, 'dev) DeviceStorage \<Rightarrow> ID \<Rightarrow> 'w \<Rightarrow> 'dev list option \<times> 'w" where
  "DevTask_read_data redis dos ident w =
     (let (devices, w1) = redis_get_devices redis ident w in
      if devices \<noteq> None \<and> 0 < length (the devices) then (devices, w1)
      else
        (let (devices, w2) = dos_get_devices dos ident w1 in
         if devices \<noteq> None \<and> 0 < length (the devices) then
           (let (_, w3) = redis_save_devices redis (the devices) ident w2 in (devices, w3))
         else (None, w2)))"

definition DevTask_write_data ::
  "('w, 'dev) DeviceCache \<Rightarrow> ('w, 'dev) DeviceStorage \<Rightarrow> ID \<Rightarrow> 'dev list \<Rightarrow> 'w \<Rightarrow> bool \<times> 'w" where
  "DevTask_write_data redis dos ident val w =
     (let (ok1, w1) = redis_save_devices redis val ident w;
          (ok2, w2) = dos_save_devices dos val ident w1
      in (ok1 \<or> ok2, w2))"

section \<open>The cache pool and the generic task\<close>

text \<open>
  \<^verbatim>\<open>CachePool\<close> (package \<^verbatim>\<open>aiou\<close>) and \<^verbatim>\<open>DbTask\<close> (package \<^verbatim>\<open>dimples\<close>) are libraries the
  tables are built on; their text is not part of the repository. They are written here as
  the specification describes them (sections 3, 4.1 and 4.2).
\<close>

text \<open>
  Modelled from the spec: the entry of a cache pool, absent from the sources (section 3):
  a value, which can be \<^verbatim>\<open>None\<close>, the time it expires and the time from which it wants a
  refresh.
\<close>

record 'v CacheEntry =
  entry_value :: "'v option"
  expireAt :: int
  refreshAt :: int

type_synonym ('k, 'v) CachePool = "'k \<Rightarrow> 'v CacheEntry option"

text \<open>
  Modelled from the spec: the two class constants of \<^verbatim>\<open>DbTask\<close>, whose defaults are absent
  from the sources: the life span of a task's cache entries and its refresh margin.
  \<^verbatim>\<open>ActTask\<close> and \<^verbatim>\<open>ScanTask\<close> set their own.
\<close>

record DbTask =
  MEM_CACHE_EXPIRES :: int
  MEM_CACHE_REFRESH :: int

text \<open>
  Modelled from the spec: \<^verbatim>\<open>CachePool.fetch\<close>, absent from the sources. It answers
  \<open>(None, False)\<close> on a miss or after \<open>expireAt\<close>, the value alone inside the freshness
  window, the value with the refresh flag from \<open>refreshAt\<close> on.
\<close>

definition CachePool_fetch :: "'k \<Rightarrow> int \<Rightarrow> ('k, 'v) CachePool \<Rightarrow> 'v option \<times> bool" where
  "CachePool_fetch key now pool =
     (case pool key of
        None \<Rightarrow> (None, False)
      | Some e \<Rightarrow>
          if expireAt e \<le> now then (None, False)
          else (entry_value e, refreshAt e \<le> now))"

text \<open>
  Modelled from the spec: \<^verbatim>\<open>CachePool.update\<close>, absent from the sources. It sets
  \<open>expireAt = now + lifespan\<close> and \<open>refreshAt = now + (lifespan - refreshMargin)\<close>.
\<close>

definition CachePool_update ::
  "'k \<Rightarrow> 'v option \<Rightarrow> int \<Rightarrow> int \<Rightarrow> int \<Rightarrow> ('k, 'v) CachePool \<Rightarrow> ('k, 'v) CachePool" where
  "CachePool_update key v life_span margin now pool =
     pool(key \<mapsto> \<lparr>entry_value = v, expireAt = now + life_span,
                    refreshAt = now + (life_span - margin)\<rparr>)"

text \<open>Modelled from the spec: \<^verbatim>\<open>CachePool.erase\<close>, absent from the sources.\<close>

definition CachePool_erase :: "'k \<Rightarrow> ('k, 'v) CachePool \<Rightarrow> ('k, 'v) CachePool" where
  "CachePool_erase key pool = pool(key := None)"

text \<open>
  Modelled from the spec: \<^verbatim>\<open>DbTask.load\<close>, absent from the sources (section 4.2). A fresh
  entry is returned at once. A stale but usable entry is returned too, after the reload
  has run. On a miss the cascading read \<^verbatim>\<open>_read_data\<close> runs. A result that was found is
  stored with the task's life span and margin; an absent one is not stored.
\<close>

definition DbTask_load ::
  "DbTask \<Rightarrow> 'k \<Rightarrow> ('w \<Rightarrow> 'v option \<times> 'w) \<Rightarrow> int \<Rightarrow> ('k, 'v) CachePool \<Rightarrow> 'w
     \<Rightarrow> 'v option \<times> ('k, 'v) CachePool \<times> 'w" where
  "DbTask_load task key read_data now pool w =
     (case CachePool_fetch key now pool of
        (Some v, False) \<Rightarrow> (Some v, pool, w)
      | (cached, _) \<Rightarrow>
          (let (found, w1) = read_data w;
               pool1 = (case found of
                          None \<Rightarrow> pool
                        | Some x \<Rightarrow>
                            CachePool_update key (Some x) (MEM_CACHE_EXPIRES task)
                              (MEM_CACHE_REFRESH task) now pool)
           in (case cached of Some v \<Rightarrow> (Some v, pool1, w1) | None \<Rightarrow> (found, pool1, w1))))"

text \<open>
  Modelled from the spec: \<^verbatim>\<open>DbTask.save\<close>, absent from the sources (section 4.2). It runs
  the write cascade \<^verbatim>\<open>_write_data\<close>, reports its result, and always stores the new value in
  the cache pool.
\<close>

definition DbTask_save ::
  "DbTask \<Rightarrow> 'k \<Rightarrow> ('v \<Rightarrow> 'w \<Rightarrow> bool \<times> 'w) \<Rightarrow> 'v \<Rightarrow> int \<Rightarrow> ('k, 'v) CachePool \<Rightarrow> 'w
     \<Rightarrow> bool \<times> ('k, 'v) CachePool \<times> 'w" where
  "DbTask_save task key write_data val now pool w =
     (let (ok, w1) = write_data val w
      in (ok, CachePool_update key (Some val) (MEM_CACHE_EXPIRES task)
                (MEM_CACHE_REFRESH task) now pool, w1))"

section \<open>\<^verbatim>\<open>t_user.py\<close>: UserTable\<close>

text \<open>
  The table holds four cache pools (\<^verbatim>\<open>cmd.contacts\<close>, \<^verbatim>\<open>cmd.block\<close>, \<^verbatim>\<open>cmd.mute\<close>,
  \<^verbatim>\<open>contacts\<close>) and the world its two sinks live in. Its tasks use the default life span
  and margin of \<^verbatim>\<open>DbTask\<close>, a parameter \<open>task\<close> here.
\<close>

record 'w UserTable =
  cmd_contacts :: "(ID, Command) CachePool"
  cmd_block :: "(ID, Command) CachePool"
  cmd_mute :: "(ID, Command) CachePool"
  contacts_cache :: "(ID, ID list) CachePool"
  user_world :: 'w

definition get_contacts ::
  "DbTask \<Rightarrow> 'w UserCache \<Rightarrow> 'w UserStorage \<Rightarrow> ID \<Rightarrow> int \<Rightarrow> 'w UserTable
     \<Rightarrow> ID list \<times> 'w UserTable" where
  "get_contacts task redis dos user now t =
     (let (contacts, pool, w) =
            DbTask_load task user (UsrTask_read_data redis dos user) now
              (contacts_cache t) (user_world t)
      in (case contacts of None \<Rightarrow> [] | Some cs \<Rightarrow> cs,
          t\<lparr>contacts_cache := pool, user_world := w\<rparr>))"

definition save_contacts ::
  "DbTask \<Rightarrow> 'w UserCache \<Rightarrow> 'w UserStorage \<Rightarrow> ID list \<Rightarrow> ID \<Rightarrow> int \<Rightarrow> 'w UserTable
     \<Rightarrow> bool \<times> 'w UserTable" where
  "save_contacts task redis dos contacts user now t =
     (let (ok, pool, w) =
            DbTask_save task user (UsrTask_write_data redis dos user) contacts now
              (contacts_cache t) (user_world t)
      in (ok, t\<lparr>contacts_cache := pool, user_world := w\<rparr>))"

definition get_contacts_command ::
  "DbTask \<Rightarrow> 'w UserCache \<Rightarrow> 'w UserStorage \<Rightarrow> ID \<Rightarrow> int \<Rightarrow> 'w UserTable
     \<Rightarrow> Command option \<times> 'w UserTable" where
  "get_contacts_command task redis dos ident now t =
     (let (cmd, pool, w) =
            DbTask_load task ident (ConTask_read_data redis dos ident) now
              (cmd_contacts t) (user_world t)
      in (cmd, t\<lparr>cmd_contacts := pool, user_world := w\<rparr>))"

definition get_block_command ::
  "DbTask \<Rightarrow> 'w UserCache \<Rightarrow> 'w UserStorage \<Rightarrow> ID \<Rightarrow> int \<Rightarrow> 'w UserTable
     \<Rightarrow> Command option \<times> 'w UserTable" where
  "get_block_command task redis dos ident now t =
     (let (cmd, pool, w) =
            DbTask_load task ident (BloTask_read_data redis dos ident) now
              (cmd_block t) (user_world t)
      in (cmd, t\<lparr>cmd_block := pool, user_world := w\<rparr>))"

definition get_mute_command ::
  "DbTask \<Rightarrow> 'w UserCache \<Rightarrow> 'w UserStorage \<Rightarrow> ID \<Rightarrow> int \<Rightarrow> 'w UserTable
     \<Rightarrow> Command option \<times> 'w UserTable" where
  "get_mute_command task redis dos ident now t =
     (let (cmd, pool, w) =
            DbTask_load task ident (MutTask_read_data redis dos ident) now
              (cmd_mute t) (user_world t)
      in (cmd, t\<lparr>cmd_mute := pool, user_world := w\<rparr>))"

text \<open>
  \<^verbatim>\<open>_is_contacts_expired\<close> unpacks the result of \<^verbatim>\<open>get_contacts_command\<close> as a pair:
  \<^verbatim>\<open>old, _ = await self.get_contacts_command(identifier=user)\<close>. That result is a command or
  \<^verbatim>\<open>None\<close>. Unpacking \<^verbatim>\<open>None\<close> raises \<^verbatim>\<open>TypeError\<close>. A command is a dictionary-like object,
  and unpacking it iterates it: \<open>keys\<close> stands for what the iteration yields (the names of
  its entries). Anything but two of them raises \<^verbatim>\<open>ValueError\<close>; with exactly two, \<^verbatim>\<open>old\<close> is
  the first name, a string, and \<^verbatim>\<open>old.time\<close> raises \<^verbatim>\<open>AttributeError\<close>.
\<close>

definition unpack_pair ::
  "(Command \<Rightarrow> string list) \<Rightarrow> Command option \<Rightarrow> py_error + (string \<times> string)" where
  "unpack_pair keys r =
     (case r of
        None \<Rightarrow> Inl TypeError
      | Some c \<Rightarrow> (case keys c of [a, b] \<Rightarrow> Inr (a, b) | _ \<Rightarrow> Inl ValueError))"

text \<open>
  The three helpers return \<^verbatim>\<open>False\<close> at both \<^verbatim>\<open>return\<close> statements and \<^verbatim>\<open>None\<close> when they
  fall off the end: the result is a \<open>bool option\<close>. \<^verbatim>\<open>is_before\<close> (package \<^verbatim>\<open>dimples\<close>) is a
  parameter.
\<close>

definition is_contacts_expired ::
  "(Command \<Rightarrow> string list) \<Rightarrow> DbTask \<Rightarrow> 'w UserCache \<Rightarrow> 'w UserStorage \<Rightarrow> ID \<Rightarrow> Command
     \<Rightarrow> int \<Rightarrow> 'w UserTable \<Rightarrow> (py_error + bool option) \<times> 'w UserTable" where
  "is_contacts_expired keys task redis dos user content now t =
     (case time content of
        None \<Rightarrow> (Inr (Some False), t)
      | Some new_time \<Rightarrow>
          if new_time \<le> 0 then (Inr (Some False), t)
          else
            (let (r, t1) = get_contacts_command task redis dos user now t
             in (case unpack_pair keys r of
                   Inl e \<Rightarrow> (Inl e, t1)
                 | Inr (old, _) \<Rightarrow> (Inl AttributeError, t1))))"

definition save_contacts_command ::
  "(Command \<Rightarrow> string list) \<Rightarrow> DbTask \<Rightarrow> 'w UserCache \<Rightarrow> 'w UserStorage \<Rightarrow> Command \<Rightarrow> ID
     \<Rightarrow> int \<Rightarrow> 'w UserTable \<Rightarrow> (py_error + bool) \<times> 'w UserTable" where
  "save_contacts_command keys task redis dos content ident now t =
     (case is_contacts_expired keys task redis dos ident content now t of
        (Inl e, t1) \<Rightarrow> (Inl e, t1)
      | (Inr expired, t1) \<Rightarrow>
          if expired = Some True then (Inr False, t1)
          else
            (let (ok, pool, w) =
                   DbTask_save task ident (ConTask_write_data redis dos ident) content now
                     (cmd_contacts t1) (user_world t1)
             in (Inr ok, t1\<lparr>cmd_contacts := pool, user_world := w\<rparr>)))"

definition is_blocked_expired ::
  "(int option \<Rightarrow> int option \<Rightarrow> bool) \<Rightarrow> DbTask \<Rightarrow> 'w UserCache \<Rightarrow> 'w UserStorage \<Rightarrow> ID
     \<Rightarrow> Command \<Rightarrow> int \<Rightarrow> 'w UserTable \<Rightarrow> bool option \<times> 'w UserTable" where
  "is_blocked_expired is_before task redis dos user content now t =
     (case time content of
        None \<Rightarrow> (Some False, t)
      | Some new_time \<Rightarrow>
          if new_time \<le> 0 then (Some False, t)
          else
            (let (old, t1) = get_block_command task redis dos user now t
             in if old \<noteq> None \<and> is_before (time (the old)) (Some new_time)
                then (Some False, t1)
                else (None, t1)))"

definition save_block_command ::
  "(int option \<Rightarrow> int option \<Rightarrow> bool) \<Rightarrow> DbTask \<Rightarrow> 'w UserCache \<Rightarrow> 'w UserStorage
     \<Rightarrow> Command \<Rightarrow> ID \<Rightarrow> int \<Rightarrow> 'w UserTable \<Rightarrow> bool \<times> 'w UserTable" where
  "save_block_command is_before task redis dos content ident now t =
     (let (expired, t1) = is_blocked_expired is_before task redis dos ident content now t
      in if expired = Some True then (False, t1)
         else
           (let (ok, pool, w) =
                  DbTask_save task ident (BloTask_write_data redis dos ident) content now
                    (cmd_block t1) (user_world t1)
            in (ok, t1\<lparr>cmd_block := pool, user_world := w\<rparr>)))"

definition is_muted_expired ::
  "(int option \<Rightarrow> int option \<Rightarrow> bool) \<Rightarrow> DbTask \<Rightarrow> 'w UserCache \<Rightarrow> 'w UserStorage \<Rightarrow> ID
     \<Rightarrow> Command \<Rightarrow> int \<Rightarrow> 'w UserTable \<Rightarrow> bool option \<times> 'w UserTable" where
  "is_muted_expired is_before task redis dos user content now t =
     (case time content of
        None \<Rightarrow> (Some False, t)
      | Some new_time \<Rightarrow>
          if new_time \<le> 0 then (Some False, t)
          else
            (let (old, t1) = get_mute_command task redis dos user now t
             in if old \<noteq> None \<and> is_before (time (the old)) (Some new_time)
                then (Some False, t1)
                else (None, t1)))"

definition save_mute_command ::
  "(int option \<Rightarrow> int option \<Rightarrow> bool) \<Rightarrow> DbTask \<Rightarrow> 'w UserCache \<Rightarrow> 'w UserStorage
     \<Rightarrow> Command \<Rightarrow> ID \<Rightarrow> int \<Rightarrow> 'w UserTable \<Rightarrow> bool \<times> 'w UserTable" where
  "save_mute_command is_before task redis dos content ident now t =
     (let (expired, t1) = is_muted_expired is_before task redis dos ident content now t
      in if expired = Some True then (False, t1)
         else
           (let (ok, pool, w) =
                  DbTask_save task ident (MutTask_write_data redis dos ident) content now
                    (cmd_mute t1) (user_world t1)
            in (ok, t1\<lparr>cmd_mute := pool, user_world := w\<rparr>)))"

section \<open>\<^verbatim>\<open>t_ans.py\<close>: AddressNameTable\<close>

text \<open>
  One cache pool (\<^verbatim>\<open>ans\<close>) serves three kinds of keys: the constant \<^verbatim>\<open>'all_records'\<close> (the
  whole registry, a dict), a name (its identifier) and an identifier (its set of names).
  All of them are strings or string-like, so the keys are strings and the values carry
  their Python type as a constructor; \<^verbatim>\<open>isinstance\<close> is a test of the constructor. A dict
  is an association list in insertion order; a registered value can be \<^verbatim>\<open>None\<close>, since
  \<^verbatim>\<open>save_record\<close> tests for it.
\<close>

datatype ans_value =
  Records "(string \<times> ID option) list"
  | Ident ID
  | Names "string set"

record 'w AddressNameCache =
  redis_get_record :: "string \<Rightarrow> 'w \<Rightarrow> ID option \<times> 'w"
  redis_get_names :: "ID \<Rightarrow> 'w \<Rightarrow> string set option \<times> 'w"
  redis_save_record :: "string \<Rightarrow> ans_value option \<Rightarrow> 'w \<Rightarrow> bool \<times> 'w"

record 'w AddressNameStorage =
  dos_load_records :: "'w \<Rightarrow> (string \<times> ID option) list option \<times> 'w"
  dos_save_records :: "(string \<times> ID option) list \<Rightarrow> 'w \<Rightarrow> bool \<times> 'w"

record 'w AddressNameTable =
  ans_cache :: "(string, ans_value) CachePool"
  ans_world :: 'w

definition AllTask_ALL_KEY :: string where
  "AllTask_ALL_KEY = ''all_records''"

definition AllTask_read_data :: "'w AddressNameStorage \<Rightarrow> 'w \<Rightarrow> ans_value option \<times> 'w" where
  "AllTask_read_data dos w = (let (r, w1) = dos_load_records dos w in (map_option Records r, w1))"

definition IdTask_read_data ::
  "'w AddressNameCache \<Rightarrow> string \<Rightarrow> 'w \<Rightarrow> ans_value option \<times> 'w" where
  "IdTask_read_data redis name w =
     (let (r, w1) = redis_get_record redis name w in (map_option Ident r, w1))"

definition NameTask_read_data ::
  "'w AddressNameCache \<Rightarrow> ID \<Rightarrow> 'w \<Rightarrow> ans_value option \<times> 'w" where
  "NameTask_read_data redis ident w =
     (let (r, w1) = redis_get_names redis ident w in (map_option Names r, w1))"

text \<open>The module function \<^verbatim>\<open>get_names(records, identifier)\<close>: the keys whose value is the
  identifier.\<close>

definition get_names :: "(string \<times> ID option) list \<Rightarrow> ID \<Rightarrow> string set" where
  "get_names records ident =
     set (filter (\<lambda>key. map_of records key = Some (Some ident)) (map fst records))"

definition load_records ::
  "DbTask \<Rightarrow> 'w AddressNameStorage \<Rightarrow> int \<Rightarrow> 'w AddressNameTable
     \<Rightarrow> ans_value \<times> 'w AddressNameTable" where
  "load_records task dos now t =
     (let (records, pool, w) =
            DbTask_load task AllTask_ALL_KEY (AllTask_read_data dos) now
              (ans_cache t) (ans_world t)
      in (case records of None \<Rightarrow> Records [] | Some r \<Rightarrow> r,
          t\<lparr>ans_cache := pool, ans_world := w\<rparr>))"

text \<open>
  \<^verbatim>\<open>save_record\<close>. The assignment \<^verbatim>\<open>all_records[name] = identifier\<close> needs a dict; on what
  another kind of key left under \<^verbatim>\<open>'all_records'\<close> (an identifier, a set) it raises
  \<^verbatim>\<open>TypeError\<close>. The result of the Redis call is dropped; the result of the storage call is
  returned.
\<close>

definition save_record ::
  "DbTask \<Rightarrow> 'w AddressNameCache \<Rightarrow> 'w AddressNameStorage \<Rightarrow> string \<Rightarrow> ID option \<Rightarrow> int
     \<Rightarrow> 'w AddressNameTable \<Rightarrow> (py_error + bool) \<times> 'w AddressNameTable" where
  "save_record task redis dos name ident now t =
     (let t0 = (case ident of
                  Some i \<Rightarrow> t\<lparr>ans_cache := CachePool_erase i (ans_cache t)\<rparr>
                | None \<Rightarrow> t);
          (all_records, t1) = load_records task dos now t0
      in (case all_records of
            Records rs \<Rightarrow>
              (let rs1 = AList.update name ident rs;
                   pool = CachePool_update AllTask_ALL_KEY (Some (Records rs1))
                            (MEM_CACHE_EXPIRES task) (MEM_CACHE_REFRESH task) now (ans_cache t1);
                   (_, w2) = redis_save_record redis name (map_option Ident ident) (ans_world t1);
                   (ok, w3) = dos_save_records dos rs1 w2
               in (Inr ok, t1\<lparr>ans_cache := pool, ans_world := w3\<rparr>))
          | _ \<Rightarrow> (Inl TypeError, t1)))"

text \<open>
  \<^verbatim>\<open>get_record\<close>. When the registry that was loaded is not a dict, \<^verbatim>\<open>did\<close> keeps what the
  first task returned, which is why the result is an \<open>ans_value option\<close>.
\<close>

definition get_record ::
  "DbTask \<Rightarrow> 'w AddressNameCache \<Rightarrow> 'w AddressNameStorage \<Rightarrow> string \<Rightarrow> int
     \<Rightarrow> 'w AddressNameTable \<Rightarrow> ans_value option \<times> 'w AddressNameTable" where
  "get_record task redis dos name now t =
     (let (did, pool1, w1) =
            DbTask_load task name (IdTask_read_data redis name) now (ans_cache t) (ans_world t)
      in (case did of
            Some (Ident i) \<Rightarrow> (Some (Ident i), t\<lparr>ans_cache := pool1, ans_world := w1\<rparr>)
          | _ \<Rightarrow>
              (let (all_records, pool2, w2) =
                     DbTask_load task AllTask_ALL_KEY (AllTask_read_data dos) now pool1 w1;
                   did1 = (case all_records of
                             Some (Records rs) \<Rightarrow>
                               (case map_of rs name of
                                  Some (Some i) \<Rightarrow> Some (Ident i)
                                | _ \<Rightarrow> None)
                           | _ \<Rightarrow> did);
                   w3 = (if did1 \<noteq> None then snd (redis_save_record redis name did1 w2) else w2);
                   pool3 = CachePool_update name did1 (MEM_CACHE_EXPIRES task)
                             (MEM_CACHE_REFRESH task) now pool2
               in (did1, t\<lparr>ans_cache := pool3, ans_world := w3\<rparr>))))"

text \<open>The method \<^verbatim>\<open>AddressNameTable.get_names\<close>.\<close>

definition AddressNameTable_get_names ::
  "DbTask \<Rightarrow> 'w AddressNameCache \<Rightarrow> 'w AddressNameStorage \<Rightarrow> ID \<Rightarrow> int
     \<Rightarrow> 'w AddressNameTable \<Rightarrow> string set \<times> 'w AddressNameTable" where
  "AddressNameTable_get_names task redis dos ident now t =
     (let (names, pool1, w1) =
            DbTask_load task ident (NameTask_read_data redis ident) now (ans_cache t) (ans_world t)
      in (case names of
            Some (Names s) \<Rightarrow> (s, t\<lparr>ans_cache := pool1, ans_world := w1\<rparr>)
          | _ \<Rightarrow>
              (let (all_records, pool2, w2) =
                     DbTask_load task AllTask_ALL_KEY (AllTask_read_data dos) now pool1 w1;
                   names1 = (case all_records of
                               Some (Records rs) \<Rightarrow> get_names rs ident
                             | _ \<Rightarrow> {});
                   pool3 = CachePool_update ident (Some (Names names1)) (MEM_CACHE_EXPIRES task)
                             (MEM_CACHE_REFRESH task) now pool2
               in (names1, t\<lparr>ans_cache := pool3, ans_world := w2\<rparr>))))"

section \<open>\<^verbatim>\<open>t_active.py\<close>: ActiveTable\<close>

type_synonym address = "string \<times> int"

text \<open>The table drops the results of \<^verbatim>\<open>clear_socket_addresses\<close> and
  \<^verbatim>\<open>save_socket_addresses\<close>, so these two change the world and nothing else.\<close>

record 'w LoginCache =
  redis_get_active_users :: "'w \<Rightarrow> ID set option \<times> 'w"
  redis_clear_socket_addresses :: "'w \<Rightarrow> 'w"
  redis_save_socket_addresses :: "ID \<Rightarrow> address set option \<Rightarrow> 'w \<Rightarrow> 'w"

record 'w ActiveTable =
  session_cache :: "(string, ID set) CachePool"
  socket_address :: "ID \<Rightarrow> address set option"
  active_world :: 'w

definition ActTask :: DbTask where
  "ActTask = \<lparr>MEM_CACHE_EXPIRES = 60, MEM_CACHE_REFRESH = 8\<rparr>"

definition ActTask_cache_key :: string where
  "ActTask_cache_key = ''active_users''"

definition ActTask_read_data :: "'w LoginCache \<Rightarrow> 'w \<Rightarrow> ID set option \<times> 'w" where
  "ActTask_read_data redis w =
     (let (users, w1) = redis_get_active_users redis w
      in if users = None \<or> the users = {} then (None, w1) else (users, w1))"

definition ActiveTable_init :: "(string, ID set) CachePool \<Rightarrow> 'w \<Rightarrow> 'w ActiveTable" where
  "ActiveTable_init pool w = \<lparr>session_cache = pool, socket_address = Map.empty, active_world = w\<rparr>"

definition clear_socket_addresses :: "'w LoginCache \<Rightarrow> 'w ActiveTable \<Rightarrow> 'w ActiveTable" where
  "clear_socket_addresses redis t =
     t\<lparr>session_cache := CachePool_erase ActTask_cache_key (session_cache t),
       active_world := redis_clear_socket_addresses redis (active_world t)\<rparr>"

definition get_active_users ::
  "'w LoginCache \<Rightarrow> int \<Rightarrow> 'w ActiveTable \<Rightarrow> ID set \<times> 'w ActiveTable" where
  "get_active_users redis now t =
     (let (users, pool, w) =
            DbTask_load ActTask ActTask_cache_key (ActTask_read_data redis) now
              (session_cache t) (active_world t)
      in (case users of None \<Rightarrow> {} | Some us \<Rightarrow> us,
          t\<lparr>session_cache := pool, active_world := w\<rparr>))"

text \<open>
  \<^verbatim>\<open>add_socket_address\<close> and \<^verbatim>\<open>remove_socket_address\<close> change the set that the dict holds
  in place, so the dict's entry is the changed set.
\<close>

definition add_socket_address ::
  "'w LoginCache \<Rightarrow> ID \<Rightarrow> address \<Rightarrow> 'w ActiveTable \<Rightarrow> address set \<times> 'w ActiveTable" where
  "add_socket_address redis ident addr t =
     (let sockets = (case socket_address t ident of None \<Rightarrow> {} | Some s \<Rightarrow> s);
          sockets1 = insert addr sockets
      in (sockets1,
          t\<lparr>socket_address := (socket_address t)(ident \<mapsto> sockets1),
            active_world := redis_save_socket_addresses redis ident (Some sockets1) (active_world t)\<rparr>))"

definition remove_socket_address ::
  "'w LoginCache \<Rightarrow> ID \<Rightarrow> address \<Rightarrow> 'w ActiveTable \<Rightarrow> address set option \<times> 'w ActiveTable" where
  "remove_socket_address redis ident addr t =
     (case socket_address t ident of
        None \<Rightarrow>
          (None, t\<lparr>active_world := redis_save_socket_addresses redis ident None (active_world t)\<rparr>)
      | Some s \<Rightarrow>
          (let s1 = s - {addr} in
           if s1 = {} then
             (None,
              t\<lparr>socket_address := (socket_address t)(ident := None),
                active_world := redis_save_socket_addresses redis ident None (active_world t)\<rparr>)
           else
             (Some s1,
              t\<lparr>socket_address := (socket_address t)(ident \<mapsto> s1),
                active_world :=
                  redis_save_socket_addresses redis ident (Some s1) (active_world t)\<rparr>)))"

text \<open>
  Modelled from the spec: the constructor of the class \<^verbatim>\<open>Database\<close>, absent from the
  sources. Of the tables it builds, the ActiveTable over the shared pool \<^verbatim>\<open>session\<close> is the
  one that matters here.
\<close>

definition Database :: "(string, ID set) CachePool \<Rightarrow> 'w \<Rightarrow> 'w ActiveTable" where
  "Database pool w = ActiveTable_init pool w"

text \<open>
  Modelled from the spec: \<^verbatim>\<open>Database.clear_socket_addresses\<close>, absent from the sources; it
  is the ActiveTable's.
\<close>

definition Database_clear_socket_addresses ::
  "'w LoginCache \<Rightarrow> 'w ActiveTable \<Rightarrow> 'w ActiveTable" where
  "Database_clear_socket_addresses redis db = clear_socket_addresses redis db"

text \<open>
  \<^verbatim>\<open>station/shared.py\<close>, \<^verbatim>\<open>create_database\<close>: it builds the database and awaits
  \<^verbatim>\<open>db.clear_socket_addresses()\<close>, once, before it sets the filters and returns the
  database.
\<close>

definition create_database ::
  "'w LoginCache \<Rightarrow> (string, ID set) CachePool \<Rightarrow> 'w \<Rightarrow> 'w ActiveTable" where
  "create_database redis pool w =
     (let db = Database pool w in Database_clear_socket_addresses redis db)"

section \<open>\<^verbatim>\<open>t_document.py\<close>: DocumentTable\<close>

text \<open>
  The pool \<^verbatim>\<open>documents\<close> holds a list of documents under an identifier and the scan result
  under the constant \<^verbatim>\<open>'all_documents'\<close>. \<^verbatim>\<open>DocumentUtils.last_document\<close> and
  \<^verbatim>\<open>DocumentUtils.is_expired\<close> (package \<^verbatim>\<open>dimples\<close>) are parameters; \<open>doc_type\<close> is what
  \<^verbatim>\<open>DocumentUtils.get_document_type\<close> reads.
\<close>

record 'w DocumentTable =
  documents_cache :: "(string, Document list) CachePool"
  doc_world :: 'w

definition ScanTask :: DbTask where
  "ScanTask = \<lparr>MEM_CACHE_EXPIRES = 3600, MEM_CACHE_REFRESH = 600\<rparr>"

definition ScanTask_ALL_KEY :: string where
  "ScanTask_ALL_KEY = ''all_documents''"

text \<open>Modelled from the spec: the constant \<^verbatim>\<open>DocumentType.VISA\<close>, absent from the sources;
  the primary document type, which the spec calls \<^verbatim>\<open>visa\<close>.\<close>

definition DocumentType_VISA :: string where
  "DocumentType_VISA = ''visa''"

definition ScanTask_read_data :: "'w DocumentStorage \<Rightarrow> 'w \<Rightarrow> Document list option \<times> 'w" where
  "ScanTask_read_data dos w = dos_scan_documents dos w"

definition get_documents ::
  "DbTask \<Rightarrow> 'w DocumentCache \<Rightarrow> 'w DocumentStorage \<Rightarrow> ID \<Rightarrow> int \<Rightarrow> 'w DocumentTable
     \<Rightarrow> Document list \<times> 'w DocumentTable" where
  "get_documents task redis dos ident now t =
     (let (docs, pool, w) =
            DbTask_load task ident (DocTask_read_data redis dos ident) now
              (documents_cache t) (doc_world t)
      in (case docs of None \<Rightarrow> [] | Some ds \<Rightarrow> ds,
          t\<lparr>documents_cache := pool, doc_world := w\<rparr>))"

definition scan_documents ::
  "'w DocumentStorage \<Rightarrow> int \<Rightarrow> 'w DocumentTable \<Rightarrow> Document list \<times> 'w DocumentTable" where
  "scan_documents dos now t =
     (let (docs, pool, w) =
            DbTask_load ScanTask ScanTask_ALL_KEY (ScanTask_read_data dos) now
              (documents_cache t) (doc_world t)
      in (case docs of None \<Rightarrow> [] | Some ds \<Rightarrow> ds,
          t\<lparr>documents_cache := pool, doc_world := w\<rparr>))"

text \<open>\<^verbatim>\<open>all_documents.append(document)\<close> on the list the pool holds: the entry keeps its
  times and holds the longer list.\<close>

definition append_cached :: "'k \<Rightarrow> 'a \<Rightarrow> ('k, 'a list) CachePool \<Rightarrow> ('k, 'a list) CachePool" where
  "append_cached key x pool =
     (case pool key of
        None \<Rightarrow> pool
      | Some e \<Rightarrow>
          (case entry_value e of
             None \<Rightarrow> pool
           | Some xs \<Rightarrow> pool(key \<mapsto> e\<lparr>entry_value := Some (xs @ [x])\<rparr>)))"

text \<open>
  The tail of \<^verbatim>\<open>save_document\<close>, from \<^verbatim>\<open># update cache for Search Engine\<close> on, with the new
  list of the identifier in hand.
\<close>

definition store_documents ::
  "DbTask \<Rightarrow> 'w DocumentCache \<Rightarrow> 'w DocumentStorage \<Rightarrow> Document \<Rightarrow> Document list \<Rightarrow> int
     \<Rightarrow> 'w DocumentTable \<Rightarrow> bool \<times> 'w DocumentTable" where
  "store_documents task redis dos document my_documents now t =
     (let ident = doc_identifier document;
          (all_documents, _) = CachePool_fetch ScanTask_ALL_KEY now (documents_cache t);
          pool1 = (if all_documents \<noteq> None
                   then append_cached ScanTask_ALL_KEY document (documents_cache t)
                   else documents_cache t);
          (ok, pool2, w) =
            DbTask_save task ident (DocTask_write_data redis dos ident) my_documents now
              pool1 (doc_world t)
      in (ok, t\<lparr>documents_cache := pool2, doc_world := w\<rparr>))"

text \<open>
  \<^verbatim>\<open>save_document\<close>. The \<^verbatim>\<open>assert\<close> is the first branch. \<^verbatim>\<open>my_documents.remove(old)\<close> drops
  the first element equal to \<^verbatim>\<open>old\<close> and raises \<^verbatim>\<open>ValueError\<close> when there is none.

  The source changes \<^verbatim>\<open>my_documents\<close> in place, and that list may be the one the pool
  holds under the identifier. The task's \<^verbatim>\<open>save\<close> then stores the same list under the same
  key, so for an identifier other than \<^verbatim>\<open>'all_documents'\<close> the pool ends as written here.
  An identifier carries an address and is never that constant; the results below assume
  so.
\<close>

definition save_document ::
  "(Document list \<Rightarrow> string \<Rightarrow> Document option) \<Rightarrow> (Document \<Rightarrow> Document \<Rightarrow> bool) \<Rightarrow> DbTask
     \<Rightarrow> 'w DocumentCache \<Rightarrow> 'w DocumentStorage \<Rightarrow> Document \<Rightarrow> int \<Rightarrow> 'w DocumentTable
     \<Rightarrow> (py_error + bool) \<times> 'w DocumentTable" where
  "save_document last_document is_expired task redis dos document now t =
     (if \<not> valid document then (Inl AssertionError, t)
      else
        (let ident = doc_identifier document;
             dtype = doc_type document;
             (my_documents, t1) = get_documents task redis dos ident now t;
             old = last_document my_documents dtype;
             old = (if old = None \<and> dtype = DocumentType_VISA
                    then last_document my_documents ''profile'' else old)
         in (case old of
               Some od \<Rightarrow>
                 if is_expired document od then (Inr False, t1)
                 else if od \<notin> set my_documents then (Inl ValueError, t1)
                 else
                   (let (ok, t2) = store_documents task redis dos document
                                     (remove1 od my_documents @ [document]) now t1
                    in (Inr ok, t2))
             | None \<Rightarrow>
                 (let (ok, t2) = store_documents task redis dos document
                                   (my_documents @ [document]) now t1
                  in (Inr ok, t2)))))"

text \<open>
  Modelled from the spec: \<^verbatim>\<open>DocumentUtils.last_document\<close>, absent from the sources: the
  most recent document of the given type in the list, where a document that is expired
  against the best one so far does not replace it.
\<close>

definition last_document ::
  "(Document \<Rightarrow> Document \<Rightarrow> bool) \<Rightarrow> Document list \<Rightarrow> string \<Rightarrow> Document option" where
  "last_document is_expired documents dtype =
     foldl (\<lambda>last doc.
              if doc_type doc \<noteq> dtype then last
              else (case last of
                      None \<Rightarrow> Some doc
                    | Some l \<Rightarrow> if is_expired doc l then last else Some doc))
       None documents"

text \<open>
  Modelled from the spec: \<^verbatim>\<open>DocumentUtils.is_expired\<close>, absent from the sources, the
  ordering rule of documents. The spec leaves the rule open; here a document is expired
  against another one when both carry a time and its own is the earlier.
\<close>

definition is_expired :: "Document \<Rightarrow> Document \<Rightarrow> bool" where
  "is_expired this_doc old_doc =
     (case (doc_time this_doc, doc_time old_doc) of
        (Some this_time, Some old_time) \<Rightarrow> this_time < old_time
      | _ \<Rightarrow> False)"

section \<open>A concrete pair of sinks\<close>

text \<open>
  Modelled from the spec: the sink classes of \<^verbatim>\<open>libs/database/redis\<close> and
  \<^verbatim>\<open>libs/database/dos\<close>, absent from the sources (section 6): a get answers the stored
  value or absent, a save answers a boolean, and a sink that cannot be reached answers
  absent or false. Each tier is a store from keys to values with a switch that makes it
  unreachable; \<open>trace\<close> records every call in order.
\<close>

datatype blob =
  BContacts "ID list"
  | BCommand Command
  | BDocuments "Document list"
  | BRecords "(string \<times> ID option) list"
  | BIdent ID
  | BNames "string list"
  | BUsers "ID list"
  | BSockets "address set"

datatype tier = Redis | Dos

datatype event = Get tier string | Put tier string blob | Del tier string | Clear tier

record sinks =
  redis_up :: bool
  dos_up :: bool
  redis_store :: "(string \<times> blob) list"
  dos_store :: "(string \<times> blob) list"
  trace :: "event list"

definition tier_up :: "tier \<Rightarrow> sinks \<Rightarrow> bool" where
  "tier_up tr w = (case tr of Redis \<Rightarrow> redis_up w | Dos \<Rightarrow> dos_up w)"

definition tier_store :: "tier \<Rightarrow> sinks \<Rightarrow> (string \<times> blob) list" where
  "tier_store tr w = (case tr of Redis \<Rightarrow> redis_store w | Dos \<Rightarrow> dos_store w)"

definition tier_set :: "tier \<Rightarrow> (string \<times> blob) list \<Rightarrow> sinks \<Rightarrow> sinks" where
  "tier_set tr st w = (case tr of Redis \<Rightarrow> w\<lparr>redis_store := st\<rparr> | Dos \<Rightarrow> w\<lparr>dos_store := st\<rparr>)"

definition sink_get :: "tier \<Rightarrow> string \<Rightarrow> sinks \<Rightarrow> blob option \<times> sinks" where
  "sink_get tr key w =
     (if tier_up tr w then map_of (tier_store tr w) key else None,
      w\<lparr>trace := trace w @ [Get tr key]\<rparr>)"

definition sink_put :: "tier \<Rightarrow> string \<Rightarrow> blob \<Rightarrow> sinks \<Rightarrow> bool \<times> sinks" where
  "sink_put tr key b w =
     (tier_up tr w,
      (if tier_up tr w then tier_set tr (AList.update key b (tier_store tr w)) w else w)
        \<lparr>trace := trace w @ [Put tr key b]\<rparr>)"

definition sink_del :: "tier \<Rightarrow> string \<Rightarrow> sinks \<Rightarrow> sinks" where
  "sink_del tr key w =
     (if tier_up tr w then tier_set tr (AList.delete key (tier_store tr w)) w else w)
       \<lparr>trace := trace w @ [Del tr key]\<rparr>"

definition sink_clear :: "tier \<Rightarrow> string \<Rightarrow> sinks \<Rightarrow> sinks" where
  "sink_clear tr prefix w =
     (if tier_up tr w
      then tier_set tr (filter (\<lambda>(k, b). take (length prefix) k \<noteq> prefix) (tier_store tr w)) w
      else w)
       \<lparr>trace := trace w @ [Clear tr]\<rparr>"

definition reading :: "(blob \<Rightarrow> 'a option) \<Rightarrow> blob option \<times> sinks \<Rightarrow> 'a option \<times> sinks" where
  "reading proj r = (case fst r of None \<Rightarrow> None | Some b \<Rightarrow> proj b, snd r)"

definition as_contacts :: "blob \<Rightarrow> ID list option" where
  "as_contacts b = (case b of BContacts c \<Rightarrow> Some c | _ \<Rightarrow> None)"

definition as_command :: "blob \<Rightarrow> Command option" where
  "as_command b = (case b of BCommand c \<Rightarrow> Some c | _ \<Rightarrow> None)"

definition as_documents :: "blob \<Rightarrow> Document list option" where
  "as_documents b = (case b of BDocuments c \<Rightarrow> Some c | _ \<Rightarrow> None)"

definition as_records :: "blob \<Rightarrow> (string \<times> ID option) list option" where
  "as_records b = (case b of BRecords c \<Rightarrow> Some c | _ \<Rightarrow> None)"

definition as_ident :: "blob \<Rightarrow> ID option" where
  "as_ident b = (case b of BIdent c \<Rightarrow> Some c | _ \<Rightarrow> None)"

definition as_names :: "blob \<Rightarrow> string set option" where
  "as_names b = (case b of BNames c \<Rightarrow> Some (set c) | _ \<Rightarrow> None)"

definition as_users :: "blob \<Rightarrow> ID set option" where
  "as_users b = (case b of BUsers c \<Rightarrow> Some (set c) | _ \<Rightarrow> None)"

definition the_UserCache :: "sinks UserCache" where
  "the_UserCache =
     \<lparr>redis_get_contacts = (\<lambda>u w. reading as_contacts (sink_get Redis (''contacts.'' @ u) w)),
      redis_save_contacts = (\<lambda>v u. sink_put Redis (''contacts.'' @ u) (BContacts v)),
      redis_get_contacts_command = (\<lambda>u w. reading as_command (sink_get Redis (''cmd.contacts.'' @ u) w)),
      redis_save_contacts_command = (\<lambda>v u. sink_put Redis (''cmd.contacts.'' @ u) (BCommand v)),
      redis_get_block_command = (\<lambda>u w. reading as_command (sink_get Redis (''cmd.block.'' @ u) w)),
      redis_save_block_command = (\<lambda>v u. sink_put Redis (''cmd.block.'' @ u) (BCommand v)),
      redis_get_mute_command = (\<lambda>u w. reading as_command (sink_get Redis (''cmd.mute.'' @ u) w)),
      redis_save_mute_command = (\<lambda>v u. sink_put Redis (''cmd.mute.'' @ u) (BCommand v))\<rparr>"

definition the_UserStorage :: "sinks UserStorage" where
  "the_UserStorage =
     \<lparr>dos_get_contacts = (\<lambda>u w. reading as_contacts (sink_get Dos (''contacts.'' @ u) w)),
      dos_save_contacts = (\<lambda>v u. sink_put Dos (''contacts.'' @ u) (BContacts v)),
      dos_get_contacts_command = (\<lambda>u w. reading as_command (sink_get Dos (''cmd.contacts.'' @ u) w)),
      dos_save_contacts_command = (\<lambda>v u. sink_put Dos (''cmd.contacts.'' @ u) (BCommand v)),
      dos_get_block_command = (\<lambda>u w. reading as_command (sink_get Dos (''cmd.block.'' @ u) w)),
      dos_save_block_command = (\<lambda>v u. sink_put Dos (''cmd.block.'' @ u) (BCommand v)),
      dos_get_mute_command = (\<lambda>u w. reading as_command (sink_get Dos (''cmd.mute.'' @ u) w)),
      dos_save_mute_command = (\<lambda>v u. sink_put Dos (''cmd.mute.'' @ u) (BCommand v))\<rparr>"

definition the_DocumentCache :: "sinks DocumentCache" where
  "the_DocumentCache =
     \<lparr>redis_load_documents = (\<lambda>u w. reading as_documents (sink_get Redis (''docs.'' @ u) w)),
      redis_save_documents = (\<lambda>v u. sink_put Redis (''docs.'' @ u) (BDocuments v))\<rparr>"

definition the_DocumentStorage :: "sinks DocumentStorage" where
  "the_DocumentStorage =
     \<lparr>dos_load_documents = (\<lambda>u w. reading as_documents (sink_get Dos (''docs.'' @ u) w)),
      dos_save_documents = (\<lambda>v u. sink_put Dos (''docs.'' @ u) (BDocuments v)),
      dos_scan_documents = (\<lambda>w. reading as_documents (sink_get Dos ''scan'' w))\<rparr>"

definition the_DeviceCache :: "(sinks, ID) DeviceCache" where
  "the_DeviceCache =
     \<lparr>redis_get_devices = (\<lambda>u w. reading as_contacts (sink_get Redis (''devices.'' @ u) w)),
      redis_save_devices = (\<lambda>v u. sink_put Redis (''devices.'' @ u) (BContacts v))\<rparr>"

definition the_DeviceStorage :: "(sinks, ID) DeviceStorage" where
  "the_DeviceStorage =
     \<lparr>dos_get_devices = (\<lambda>u w. reading as_contacts (sink_get Dos (''devices.'' @ u) w)),
      dos_save_devices = (\<lambda>v u. sink_put Dos (''devices.'' @ u) (BContacts v))\<rparr>"

text \<open>The Redis side of the name registry keeps one record per name, and refuses a value
  that is no identifier; the storage keeps the registry under one key.\<close>

definition the_AddressNameCache :: "sinks AddressNameCache" where
  "the_AddressNameCache =
     \<lparr>redis_get_record = (\<lambda>n w. reading as_ident (sink_get Redis (''ans.'' @ n) w)),
      redis_get_names = (\<lambda>i w. reading as_names (sink_get Redis (''names.'' @ i) w)),
      redis_save_record =
        (\<lambda>n v w. case v of
                    Some (Ident i) \<Rightarrow> sink_put Redis (''ans.'' @ n) (BIdent i) w
                  | _ \<Rightarrow> (False, w))\<rparr>"

definition the_AddressNameStorage :: "sinks AddressNameStorage" where
  "the_AddressNameStorage =
     \<lparr>dos_load_records = (\<lambda>w. reading as_records (sink_get Dos ''ans'' w)),
      dos_save_records = (\<lambda>rs. sink_put Dos ''ans'' (BRecords rs))\<rparr>"

definition the_LoginCache :: "sinks LoginCache" where
  "the_LoginCache =
     \<lparr>redis_get_active_users = (\<lambda>w. reading as_users (sink_get Redis ''active_users'' w)),
      redis_clear_socket_addresses =
        (\<lambda>w. sink_del Redis ''active_users'' (sink_clear Redis ''sockets.'' w)),
      redis_save_socket_addresses =
        (\<lambda>i a w. case a of
                    None \<Rightarrow> sink_del Redis (''sockets.'' @ i) w
                  | Some s \<Rightarrow> snd (sink_put Redis (''sockets.'' @ i) (BSockets s) w))\<rparr>"

definition empty_sinks :: sinks where
  "empty_sinks = \<lparr>redis_up = True, dos_up = True, redis_store = [], dos_store = [], trace = []\<rparr>"

text \<open>The defaults of \<^verbatim>\<open>DbTask\<close> are not in the sources; the examples run with these.\<close>

definition a_task :: DbTask where
  "a_task = \<lparr>MEM_CACHE_EXPIRES = 300, MEM_CACHE_REFRESH = 32\<rparr>"

text \<open>Two commands of one user, and a table whose sinks hold the one of time 100 as the
  contacts command and as the block command of \<^verbatim>\<open>alice\<close>.\<close>

definition cmd100 :: Command where
  "cmd100 = \<lparr>time = Some 100, body = [''bob'']\<rparr>"

definition cmd50 :: Command where
  "cmd50 = \<lparr>time = Some 50, body = [''carol'']\<rparr>"

definition holding_100 :: "sinks UserTable" where
  "holding_100 =
     \<lparr>cmd_contacts = Map.empty, cmd_block = Map.empty, cmd_mute = Map.empty,
      contacts_cache = Map.empty,
      user_world = empty_sinks
        \<lparr>redis_store := [(''cmd.contacts.alice'', BCommand cmd100),
                          (''cmd.block.alice'', BCommand cmd100)],
         dos_store := [(''cmd.contacts.alice'', BCommand cmd100),
                        (''cmd.block.alice'', BCommand cmd100)]\<rparr>\<rparr>"

text \<open>Sinks where only the storage knows the contacts and the documents of \<^verbatim>\<open>alice\<close>.\<close>

definition a_visa :: Document where
  "a_visa = \<lparr>doc_identifier = ''alice'', doc_type = ''visa'', doc_time = Some 10, valid = True\<rparr>"

definition alice_on_disk :: sinks where
  "alice_on_disk =
     empty_sinks\<lparr>dos_store := [(''contacts.alice'', BContacts [''bob'']),
                                (''docs.alice'', BDocuments [a_visa])]\<rparr>"

text \<open>
  A registry that starts empty. \<^verbatim>\<open>alice\<close> is registered for \<^verbatim>\<open>idA\<close> at time 0. Then either
  the names of \<^verbatim>\<open>idA\<close> are asked for (time 1), or the identifier of \<^verbatim>\<open>alice\<close> is (time 1);
  then \<^verbatim>\<open>alice\<close> is registered for \<^verbatim>\<open>idB\<close> (time 2).
\<close>

definition ans_empty :: "sinks AddressNameTable" where
  "ans_empty = \<lparr>ans_cache = Map.empty, ans_world = empty_sinks\<rparr>"

definition after_first_save :: "sinks AddressNameTable" where
  "after_first_save =
     snd (save_record a_task the_AddressNameCache the_AddressNameStorage ''alice''
            (Some ''idA'') 0 ans_empty)"

definition after_names_A :: "sinks AddressNameTable" where
  "after_names_A =
     snd (AddressNameTable_get_names a_task the_AddressNameCache the_AddressNameStorage
            ''idA'' 1 after_first_save)"

definition after_second_save :: "sinks AddressNameTable" where
  "after_second_save =
     snd (save_record a_task the_AddressNameCache the_AddressNameStorage ''alice''
            (Some ''idB'') 2 after_names_A)"

definition after_lookup :: "sinks AddressNameTable" where
  "after_lookup =
     snd (get_record a_task the_AddressNameCache the_AddressNameStorage ''alice'' 1
            after_first_save)"

definition after_rebind :: "sinks AddressNameTable" where
  "after_rebind =
     snd (save_record a_task the_AddressNameCache the_AddressNameStorage ''alice''
            (Some ''idB'') 2 after_lookup)"

text \<open>The registry with \<^verbatim>\<open>alice\<close> for \<^verbatim>\<open>idA\<close>, the names of \<^verbatim>\<open>idA\<close> in the pool, and a storage
  that cannot be reached.\<close>

definition storage_down :: "sinks AddressNameTable" where
  "storage_down =
     \<lparr>ans_cache =
        [''all_records'' \<mapsto> \<lparr>entry_value = Some (Records [(''alice'', Some ''idA'')]),
                               expireAt = 300, refreshAt = 268\<rparr>,
         ''idA'' \<mapsto> \<lparr>entry_value = Some (Names {''alice''}), expireAt = 301, refreshAt = 269\<rparr>],
      ans_world =
        empty_sinks\<lparr>dos_up := False,
                     redis_store := [(''ans.alice'', BIdent ''idA'')],
                     dos_store := [(''ans'', BRecords [(''alice'', Some ''idA'')])]\<rparr>\<rparr>"

text \<open>A sequence of calls of \<^verbatim>\<open>add_socket_address\<close> and \<^verbatim>\<open>remove_socket_address\<close>.\<close>

datatype socket_op = Add ID address | Remove ID address

fun apply_op :: "'w LoginCache \<Rightarrow> 'w ActiveTable \<Rightarrow> socket_op \<Rightarrow> 'w ActiveTable" where
  "apply_op redis t (Add i a) = snd (add_socket_address redis i a t)"
| "apply_op redis t (Remove i a) = snd (remove_socket_address redis i a t)"

definition run_ops :: "'w LoginCache \<Rightarrow> socket_op list \<Rightarrow> 'w ActiveTable \<Rightarrow> 'w ActiveTable" where
  "run_ops redis ops t = foldl (apply_op redis) t ops"

text \<open>A table that read the active users at time 0, when Redis knew \<^verbatim>\<open>alice\<close>; since then
  another process has made Redis know \<^verbatim>\<open>bob\<close> instead.\<close>

definition presence_read :: "sinks ActiveTable" where
  "presence_read =
     snd (get_active_users the_LoginCache 0
            (ActiveTable_init Map.empty
               (empty_sinks\<lparr>redis_store := [(''active_users'', BUsers [''alice''])]\<rparr>)))"

definition presence_changed :: "sinks ActiveTable" where
  "presence_changed =
     presence_read\<lparr>active_world :=
       (active_world presence_read)\<lparr>redis_store := [(''active_users'', BUsers [''bob''])]\<rparr>\<rparr>"

text \<open>A table with one connection of \<^verbatim>\<open>alice\<close>, mirrored in Redis.\<close>

definition one_connection :: "sinks ActiveTable" where
  "one_connection =
     snd (add_socket_address the_LoginCache ''alice'' (''10.0.0.1'', 9394)
            (ActiveTable_init Map.empty empty_sinks))"

text \<open>
  A table that has scanned the storage (the pool holds the scan result, the one visa of
  \<^verbatim>\<open>alice\<close> of time 10) and has not read the documents of \<^verbatim>\<open>alice\<close> yet; an older and
  a newer visa of hers.
\<close>

definition scanned :: "sinks DocumentTable" where
  "scanned =
     \<lparr>documents_cache =
        [''all_documents'' \<mapsto> \<lparr>entry_value = Some [a_visa], expireAt = 3600, refreshAt = 3000\<rparr>],
      doc_world = alice_on_disk\<rparr>"

definition older_visa :: Document where
  "older_visa = a_visa\<lparr>doc_time := Some 5\<rparr>"

definition newer_visa :: Document where
  "newer_visa = a_visa\<lparr>doc_time := Some 20\<rparr>"

section \<open>Results\<close>

subsection \<open>Evaluating the concrete sinks\<close>

lemma sink_simps:
  "tier_up Redis w = redis_up w" "tier_up Dos w = dos_up w"
  "tier_store Redis w = redis_store w" "tier_store Dos w = dos_store w"
  "tier_set Redis st w = w\<lparr>redis_store := st\<rparr>" "tier_set Dos st w = w\<lparr>dos_store := st\<rparr>"
  by (simp_all add: tier_up_def tier_store_def tier_set_def)

lemmas sink_defs = sink_get_def sink_put_def sink_del_def sink_clear_def reading_def sink_simps
  as_contacts_def as_command_def as_documents_def as_records_def as_ident_def as_names_def
  as_users_def empty_sinks_def

lemmas pool_defs = CachePool_fetch_def CachePool_update_def CachePool_erase_def
  DbTask_load_def DbTask_save_def a_task_def

subsection \<open>The write cascade\<close>

text \<open>
  C2. Every write cascade (contacts, the three command records, documents, devices) runs
  the Redis save and then the storage save, whatever the first one answered, and returns
  the disjunction of the two answers; the world it leaves is the one after both calls.
  The task's \<^verbatim>\<open>save\<close> reports what the cascade returned.
\<close>

theorem write_cascade_either_sink:
  "UsrTask_write_data redis1 dos1 user contacts w1 =
     (fst (redis_save_contacts redis1 contacts user w1)
        \<or> fst (dos_save_contacts dos1 contacts user
                 (snd (redis_save_contacts redis1 contacts user w1))),
      snd (dos_save_contacts dos1 contacts user
             (snd (redis_save_contacts redis1 contacts user w1))))
   \<and> ConTask_write_data redis1 dos1 user cmd w1 =
     (fst (redis_save_contacts_command redis1 cmd user w1)
        \<or> fst (dos_save_contacts_command dos1 cmd user
                 (snd (redis_save_contacts_command redis1 cmd user w1))),
      snd (dos_save_contacts_command dos1 cmd user
             (snd (redis_save_contacts_command redis1 cmd user w1))))
   \<and> BloTask_write_data redis1 dos1 user cmd w1 =
     (fst (redis_save_block_command redis1 cmd user w1)
        \<or> fst (dos_save_block_command dos1 cmd user
                 (snd (redis_save_block_command redis1 cmd user w1))),
      snd (dos_save_block_command dos1 cmd user
             (snd (redis_save_block_command redis1 cmd user w1))))
   \<and> MutTask_write_data redis1 dos1 user cmd w1 =
     (fst (redis_save_mute_command redis1 cmd user w1)
        \<or> fst (dos_save_mute_command dos1 cmd user
                 (snd (redis_save_mute_command redis1 cmd user w1))),
      snd (dos_save_mute_command dos1 cmd user
             (snd (redis_save_mute_command redis1 cmd user w1))))
   \<and> DocTask_write_data redis2 dos2 ident docs w2 =
     (fst (redis_save_documents redis2 docs ident w2)
        \<or> fst (dos_save_documents dos2 docs ident
                 (snd (redis_save_documents redis2 docs ident w2))),
      snd (dos_save_documents dos2 docs ident
             (snd (redis_save_documents redis2 docs ident w2))))
   \<and> DevTask_write_data redis3 dos3 ident devices w3 =
     (fst (redis_save_devices redis3 devices ident w3)
        \<or> fst (dos_save_devices dos3 devices ident
                 (snd (redis_save_devices redis3 devices ident w3))),
      snd (dos_save_devices dos3 devices ident
             (snd (redis_save_devices redis3 devices ident w3))))
   \<and> fst (DbTask_save task key write_data val now pool w) = fst (write_data val w)
   \<and> snd (snd (DbTask_save task key write_data val now pool w)) = snd (write_data val w)"
  by (simp add: UsrTask_write_data_def ConTask_write_data_def BloTask_write_data_def
      MutTask_write_data_def DocTask_write_data_def DevTask_write_data_def DbTask_save_def
      split_def Let_def)

text \<open>On the concrete sinks, with the storage unreachable: the save is reported as done,
  and the trace shows both calls.\<close>

lemma write_cascade_storage_down:
  "UsrTask_write_data the_UserCache the_UserStorage ''alice'' [''bob'']
     (empty_sinks\<lparr>dos_up := False\<rparr>) =
   (True, \<lparr>redis_up = True, dos_up = False,
           redis_store = [(''contacts.alice'', BContacts [''bob''])], dos_store = [],
           trace = [Put Redis ''contacts.alice'' (BContacts [''bob'']),
                    Put Dos ''contacts.alice'' (BContacts [''bob''])]\<rparr>)"
  by (simp add: UsrTask_write_data_def the_UserCache_def the_UserStorage_def sink_defs)

lemma write_cascade_both_down:
  "UsrTask_write_data the_UserCache the_UserStorage ''alice'' [''bob'']
     (empty_sinks\<lparr>redis_up := False, dos_up := False\<rparr>) =
   (False, \<lparr>redis_up = False, dos_up = False, redis_store = [], dos_store = [],
            trace = [Put Redis ''contacts.alice'' (BContacts [''bob'']),
                     Put Dos ''contacts.alice'' (BContacts [''bob''])]\<rparr>)"
  by (simp add: UsrTask_write_data_def the_UserCache_def the_UserStorage_def sink_defs)

subsection \<open>The read cascade\<close>

text \<open>
  C3. When Redis answers absent (for documents: absent or an empty list) and the storage
  answers a value (for documents: a non-empty list), \<^verbatim>\<open>_read_data\<close> asks Redis in the world
  it is given, then the storage in the world Redis left, then saves the storage's value
  into Redis in the world the storage left, and returns that value. When both answer
  absent it returns absent, and no save is made.
\<close>

theorem read_cascade_backfills_redis:
  "(redis_get_contacts redis1 user w = (None, wa) \<longrightarrow>
    dos_get_contacts dos1 user wa = (Some contacts, wb) \<longrightarrow>
      UsrTask_read_data redis1 dos1 user w =
        (Some contacts, snd (redis_save_contacts redis1 contacts user wb)))
   \<and> (redis_get_contacts redis1 user w = (None, wa) \<longrightarrow>
      dos_get_contacts dos1 user wa = (None, wb) \<longrightarrow>
        UsrTask_read_data redis1 dos1 user w = (None, wb))
   \<and> (redis_load_documents redis2 ident v = (r, va) \<longrightarrow> r \<in> {None, Some []} \<longrightarrow>
      dos_load_documents dos2 ident va = (Some docs, vb) \<longrightarrow> docs \<noteq> [] \<longrightarrow>
        DocTask_read_data redis2 dos2 ident v =
          (Some docs, snd (redis_save_documents redis2 docs ident vb)))
   \<and> (redis_load_documents redis2 ident v = (r, va) \<longrightarrow> r \<in> {None, Some []} \<longrightarrow>
      dos_load_documents dos2 ident va = (d, vb) \<longrightarrow> d \<in> {None, Some []} \<longrightarrow>
        DocTask_read_data redis2 dos2 ident v = (None, vb))"
  by (auto simp add: UsrTask_read_data_def DocTask_read_data_def split_def Let_def)

text \<open>The witness: the storage alone knows \<^verbatim>\<open>alice\<close>. The value comes back, Redis holds
  it afterwards, and the trace is Redis, storage, Redis. In empty sinks the answer is
  absent after one question to each tier.\<close>

theorem read_cascade_backfills_redis_witness:
  "UsrTask_read_data the_UserCache the_UserStorage ''alice'' alice_on_disk =
     (Some [''bob''],
      alice_on_disk
        \<lparr>redis_store := [(''contacts.alice'', BContacts [''bob''])],
         trace := [Get Redis ''contacts.alice'', Get Dos ''contacts.alice'',
                   Put Redis ''contacts.alice'' (BContacts [''bob''])]\<rparr>)
   \<and> DocTask_read_data the_DocumentCache the_DocumentStorage ''alice'' alice_on_disk =
     (Some [a_visa],
      alice_on_disk
        \<lparr>redis_store := [(''docs.alice'', BDocuments [a_visa])],
         trace := [Get Redis ''docs.alice'', Get Dos ''docs.alice'',
                   Put Redis ''docs.alice'' (BDocuments [a_visa])]\<rparr>)
   \<and> UsrTask_read_data the_UserCache the_UserStorage ''alice'' empty_sinks =
     (None, empty_sinks\<lparr>trace := [Get Redis ''contacts.alice'', Get Dos ''contacts.alice'']\<rparr>)
   \<and> DocTask_read_data the_DocumentCache the_DocumentStorage ''alice'' empty_sinks =
     (None, empty_sinks\<lparr>trace := [Get Redis ''docs.alice'', Get Dos ''docs.alice'']\<rparr>)"
proof -
  let ?k = "''contacts.alice''" and ?d = "''docs.alice''"
  let ?w1 = "alice_on_disk\<lparr>trace := [Get Redis ?k]\<rparr>"
  let ?w2 = "alice_on_disk\<lparr>trace := [Get Redis ?k, Get Dos ?k]\<rparr>"
  let ?v1 = "alice_on_disk\<lparr>trace := [Get Redis ?d]\<rparr>"
  let ?v2 = "alice_on_disk\<lparr>trace := [Get Redis ?d, Get Dos ?d]\<rparr>"
  let ?e1 = "empty_sinks\<lparr>trace := [Get Redis ?k]\<rparr>"
  let ?e2 = "empty_sinks\<lparr>trace := [Get Redis ?k, Get Dos ?k]\<rparr>"
  let ?f1 = "empty_sinks\<lparr>trace := [Get Redis ?d]\<rparr>"
  let ?f2 = "empty_sinks\<lparr>trace := [Get Redis ?d, Get Dos ?d]\<rparr>"
  have r1: "redis_get_contacts the_UserCache ''alice'' alice_on_disk = (None, ?w1)"
    and d1: "dos_get_contacts the_UserStorage ''alice'' ?w1 = (Some [''bob''], ?w2)"
    and r2: "redis_load_documents the_DocumentCache ''alice'' alice_on_disk = (None, ?v1)"
    and d2: "dos_load_documents the_DocumentStorage ''alice'' ?v1 = (Some [a_visa], ?v2)"
    and r3: "redis_get_contacts the_UserCache ''alice'' empty_sinks = (None, ?e1)"
    and d3: "dos_get_contacts the_UserStorage ''alice'' ?e1 = (None, ?e2)"
    and r4: "redis_load_documents the_DocumentCache ''alice'' empty_sinks = (None, ?f1)"
    and d4: "dos_load_documents the_DocumentStorage ''alice'' ?f1 = (None, ?f2)"
    by (simp_all add: the_UserCache_def the_UserStorage_def the_DocumentCache_def
        the_DocumentStorage_def sink_defs alice_on_disk_def)
  have s1: "snd (redis_save_contacts the_UserCache [''bob''] ''alice'' ?w2) =
              alice_on_disk\<lparr>redis_store := [(?k, BContacts [''bob''])],
                trace := [Get Redis ?k, Get Dos ?k, Put Redis ?k (BContacts [''bob''])]\<rparr>"
    and s2: "snd (redis_save_documents the_DocumentCache [a_visa] ''alice'' ?v2) =
              alice_on_disk\<lparr>redis_store := [(?d, BDocuments [a_visa])],
                trace := [Get Redis ?d, Get Dos ?d, Put Redis ?d (BDocuments [a_visa])]\<rparr>"
    by (simp_all add: the_UserCache_def the_DocumentCache_def sink_defs alice_on_disk_def)
  from read_cascade_backfills_redis
         [of the_UserCache "''alice''" alice_on_disk ?w1 the_UserStorage "[''bob'']" ?w2
             the_DocumentCache "''alice''" alice_on_disk None ?v1 the_DocumentStorage
             "[a_visa]" ?v2 None]
       read_cascade_backfills_redis
         [of the_UserCache "''alice''" empty_sinks ?e1 the_UserStorage "[]" ?e2
             the_DocumentCache "''alice''" empty_sinks None ?f1 the_DocumentStorage
             "[]" ?f2 None]
       r1 d1 r2 d2 r3 d3 r4 d4 s1 s2
  show ?thesis by simp
qed

text \<open>The four other read cascades have the same two shapes.\<close>

lemma read_cascade_commands_and_devices:
  "(redis_get_contacts_command redis1 user w = (None, wa) \<longrightarrow>
    dos_get_contacts_command dos1 user wa = (Some cmd, wb) \<longrightarrow>
      ConTask_read_data redis1 dos1 user w =
        (Some cmd, snd (redis_save_contacts_command redis1 cmd user wb)))
   \<and> (redis_get_block_command redis1 user w = (None, wa) \<longrightarrow>
      dos_get_block_command dos1 user wa = (Some cmd, wb) \<longrightarrow>
        BloTask_read_data redis1 dos1 user w =
          (Some cmd, snd (redis_save_block_command redis1 cmd user wb)))
   \<and> (redis_get_mute_command redis1 user w = (None, wa) \<longrightarrow>
      dos_get_mute_command dos1 user wa = (Some cmd, wb) \<longrightarrow>
        MutTask_read_data redis1 dos1 user w =
          (Some cmd, snd (redis_save_mute_command redis1 cmd user wb)))
   \<and> (redis_get_devices redis3 ident v = (r, va) \<longrightarrow> r \<in> {None, Some []} \<longrightarrow>
      dos_get_devices dos3 ident va = (Some devices, vb) \<longrightarrow> devices \<noteq> [] \<longrightarrow>
        DevTask_read_data redis3 dos3 ident v =
          (Some devices, snd (redis_save_devices redis3 devices ident vb)))"
  by (auto simp add: ConTask_read_data_def BloTask_read_data_def MutTask_read_data_def
      DevTask_read_data_def split_def Let_def)

subsection \<open>Command records: the check of the command time\<close>

text \<open>None of the three helpers ever answers \<^verbatim>\<open>True\<close>, and the one for contacts raises
  whenever the command carries a positive time.\<close>

lemma is_blocked_expired_never_True:
  "fst (is_blocked_expired is_before task redis dos user content now t) \<noteq> Some True"
  by (simp add: is_blocked_expired_def split_def Let_def split: option.splits)

lemma is_muted_expired_never_True:
  "fst (is_muted_expired is_before task redis dos user content now t) \<noteq> Some True"
  by (simp add: is_muted_expired_def split_def Let_def split: option.splits)

lemma is_contacts_expired_never_True:
  "fst (is_contacts_expired keys task redis dos user content now t) \<noteq> Inr (Some True)"
  by (simp add: is_contacts_expired_def split_def Let_def split: option.splits sum.splits)

lemma is_contacts_expired_raises:
  "time content = Some n \<Longrightarrow> 0 < n \<Longrightarrow>
     isl (fst (is_contacts_expired keys task redis dos user content now t))"
  by (simp add: is_contacts_expired_def split_def Let_def split: option.splits sum.splits)

lemma save_contacts_command_raises:
  "time content = Some n \<Longrightarrow> 0 < n \<Longrightarrow>
     isl (fst (save_contacts_command keys task redis dos content ident now t))"
  using is_contacts_expired_raises[of content n keys task redis dos ident now t]
  by (cases "is_contacts_expired keys task redis dos ident content now t")
     (auto simp add: save_contacts_command_def split: sum.splits)

lemma save_block_command_saves:
  "save_block_command is_before task redis dos content ident now t =
     (let t1 = snd (is_blocked_expired is_before task redis dos ident content now t);
          (ok, pool, w) = DbTask_save task ident (BloTask_write_data redis dos ident) content now
                            (cmd_block t1) (user_world t1)
      in (ok, t1\<lparr>cmd_block := pool, user_world := w\<rparr>))"
  using is_blocked_expired_never_True[of is_before task redis dos ident content now t]
  by (simp add: save_block_command_def split_def Let_def)

text \<open>
  C1. The claim fails on the code. A table holds the command of time 100 for \<^verbatim>\<open>alice\<close>,
  and the command of time 50 arrives. \<^verbatim>\<open>save_contacts_command\<close> ends in an exception,
  whatever iterating a command yields: it never answers \<^verbatim>\<open>False\<close>. \<^verbatim>\<open>save_block_command\<close>,
  the sibling without the unpacking, answers \<^verbatim>\<open>True\<close> whatever \<^verbatim>\<open>is_before\<close> computes, and
  the older command replaces the stored one in the storage, in Redis and in the pool.
\<close>

theorem stale_command_is_not_rejected:
  "isl (fst (save_contacts_command keys a_task the_UserCache the_UserStorage cmd50 ''alice'' 1
               holding_100))
   \<and> fst (save_block_command is_before a_task the_UserCache the_UserStorage cmd50 ''alice'' 1
            holding_100) = True
   \<and> map_of (dos_store (user_world (snd (save_block_command is_before a_task the_UserCache
              the_UserStorage cmd50 ''alice'' 1 holding_100)))) ''cmd.block.alice''
       = Some (BCommand cmd50)
   \<and> map_of (redis_store (user_world (snd (save_block_command is_before a_task the_UserCache
              the_UserStorage cmd50 ''alice'' 1 holding_100)))) ''cmd.block.alice''
       = Some (BCommand cmd50)
   \<and> fst (get_block_command a_task the_UserCache the_UserStorage ''alice'' 2
            (snd (save_block_command is_before a_task the_UserCache the_UserStorage cmd50
                    ''alice'' 1 holding_100))) = Some cmd50"
proof -
  have c: "isl (fst (save_contacts_command keys a_task the_UserCache the_UserStorage cmd50
                       ''alice'' 1 holding_100))"
    by (rule save_contacts_command_raises[of cmd50 50]) (simp_all add: cmd50_def)
  let ?t1 = "snd (is_blocked_expired is_before a_task the_UserCache the_UserStorage ''alice''
                    cmd50 1 holding_100)"
  have t1: "?t1 = holding_100
              \<lparr>cmd_block := [''alice'' \<mapsto> \<lparr>entry_value = Some cmd100, expireAt = 301,
                                             refreshAt = 269\<rparr>],
               user_world := (user_world holding_100)\<lparr>trace := [Get Redis ''cmd.block.alice'']\<rparr>\<rparr>"
    by (simp add: is_blocked_expired_def get_block_command_def BloTask_read_data_def
        the_UserCache_def the_UserStorage_def sink_defs pool_defs holding_100_def cmd50_def
        split_def Let_def)
  have b: "save_block_command is_before a_task the_UserCache the_UserStorage cmd50 ''alice'' 1
             holding_100 =
           (True, holding_100
              \<lparr>cmd_block := [''alice'' \<mapsto> \<lparr>entry_value = Some cmd50, expireAt = 301,
                                             refreshAt = 269\<rparr>],
               user_world := empty_sinks
                 \<lparr>redis_store := [(''cmd.contacts.alice'', BCommand cmd100),
                                   (''cmd.block.alice'', BCommand cmd50)],
                  dos_store := [(''cmd.contacts.alice'', BCommand cmd100),
                                 (''cmd.block.alice'', BCommand cmd50)],
                  trace := [Get Redis ''cmd.block.alice'',
                            Put Redis ''cmd.block.alice'' (BCommand cmd50),
                            Put Dos ''cmd.block.alice'' (BCommand cmd50)]\<rparr>\<rparr>)"
    unfolding save_block_command_saves t1
    by (simp add: BloTask_write_data_def the_UserCache_def the_UserStorage_def sink_defs
        pool_defs holding_100_def split_def Let_def)
  show ?thesis
    unfolding b using c
    by (simp add: get_block_command_def pool_defs holding_100_def sink_defs)
qed

subsection \<open>The name registry\<close>

lemmas ans_defs = save_record_def get_record_def AddressNameTable_get_names_def load_records_def
  AllTask_read_data_def IdTask_read_data_def NameTask_read_data_def AllTask_ALL_KEY_def
  the_AddressNameCache_def the_AddressNameStorage_def get_names_def ans_empty_def

text \<open>What the generic task does to the pool.\<close>

lemma DbTask_load_then_update:
  "CachePool_update key v e m now (fst (snd (DbTask_load task key read_data now pool w))) =
     CachePool_update key v e m now pool"
  by (simp add: DbTask_load_def CachePool_update_def split_def Let_def
      split: option.splits bool.splits prod.splits)

lemma DbTask_load_other_key:
  "k \<noteq> key \<Longrightarrow> fst (snd (DbTask_load task key read_data now pool w)) k = pool k"
  by (simp add: DbTask_load_def CachePool_update_def split_def Let_def
      split: option.splits bool.splits prod.splits)

lemma DbTask_load_fresh:
  "pool key = Some e \<Longrightarrow> entry_value e = Some v \<Longrightarrow> now < refreshAt e \<Longrightarrow> now < expireAt e \<Longrightarrow>
     DbTask_load task key read_data now pool w = (Some v, pool, w)"
  by (simp add: DbTask_load_def CachePool_fetch_def)

text \<open>A fresh entry of the right kind answers \<^verbatim>\<open>get_names\<close> and \<^verbatim>\<open>get_record\<close> without any
  call to a sink, and \<^verbatim>\<open>save_record\<close> leaves every entry alone but the one of the
  identifier it is given and the registry's.\<close>

lemma get_names_from_pool:
  "ans_cache t i = Some e \<Longrightarrow> entry_value e = Some (Names s) \<Longrightarrow> now < refreshAt e \<Longrightarrow>
   now < expireAt e \<Longrightarrow>
     AddressNameTable_get_names task redis dos i now t = (s, t)"
  by (simp add: AddressNameTable_get_names_def DbTask_load_fresh)

lemma get_record_from_pool:
  "ans_cache t name = Some e \<Longrightarrow> entry_value e = Some (Ident i) \<Longrightarrow> now < refreshAt e \<Longrightarrow>
   now < expireAt e \<Longrightarrow>
     get_record task redis dos name now t = (Some (Ident i), t)"
  by (simp add: get_record_def DbTask_load_fresh)

lemma save_record_other_entries:
  "k \<noteq> AllTask_ALL_KEY \<Longrightarrow> ident \<noteq> Some k \<Longrightarrow>
     ans_cache (snd (save_record task redis dos name ident now t)) k = ans_cache t k"
  by (cases ident)
     (auto simp add: save_record_def load_records_def split_def Let_def DbTask_load_other_key
        CachePool_update_def CachePool_erase_def split: ans_value.splits option.splits)

text \<open>The states of the two runs.\<close>

lemma after_first_save_eq:
  "after_first_save =
     \<lparr>ans_cache = [''all_records'' \<mapsto> \<lparr>entry_value = Some (Records [(''alice'', Some ''idA'')]),
                        expireAt = 300, refreshAt = 268\<rparr>],
      ans_world = \<lparr>redis_up = True, dos_up = True,
              redis_store = [(''ans.alice'', BIdent ''idA'')],
              dos_store = [(''ans'', BRecords [(''alice'', Some ''idA'')])],
              trace = [Get Dos ''ans'', Put Redis ''ans.alice'' (BIdent ''idA''),
                 Put Dos ''ans'' (BRecords [(''alice'', Some ''idA'')])]\<rparr>\<rparr>"
  by (simp add: after_first_save_def ans_defs sink_defs pool_defs split_def Let_def)

lemma names_A_eq:
  "AddressNameTable_get_names a_task the_AddressNameCache the_AddressNameStorage ''idA'' 1
     after_first_save =
  ({''alice''},
     \<lparr>ans_cache = [''all_records'' \<mapsto> \<lparr>entry_value = Some (Records [(''alice'', Some ''idA'')]),
                        expireAt = 300, refreshAt = 268\<rparr>,
                   ''idA'' \<mapsto> \<lparr>entry_value = Some (Names {''alice''}), expireAt = 301, refreshAt = 269\<rparr>],
      ans_world = \<lparr>redis_up = True, dos_up = True,
              redis_store = [(''ans.alice'', BIdent ''idA'')],
              dos_store = [(''ans'', BRecords [(''alice'', Some ''idA'')])],
              trace = [Get Dos ''ans'', Put Redis ''ans.alice'' (BIdent ''idA''),
                 Put Dos ''ans'' (BRecords [(''alice'', Some ''idA'')]), Get Redis ''names.idA'']\<rparr>\<rparr>)"
  unfolding after_first_save_eq
  by (simp add: ans_defs sink_defs pool_defs split_def Let_def)

lemma second_save_eq:
  "save_record a_task the_AddressNameCache the_AddressNameStorage ''alice'' (Some ''idB'') 2
     after_names_A =
  (Inr True,
     \<lparr>ans_cache = [''idA'' \<mapsto> \<lparr>entry_value = Some (Names {''alice''}), expireAt = 301, refreshAt = 269\<rparr>,
                   ''all_records'' \<mapsto> \<lparr>entry_value = Some (Records [(''alice'', Some ''idB'')]),
                        expireAt = 302, refreshAt = 270\<rparr>],
      ans_world = \<lparr>redis_up = True, dos_up = True,
              redis_store = [(''ans.alice'', BIdent ''idB'')],
              dos_store = [(''ans'', BRecords [(''alice'', Some ''idB'')])],
              trace = [Get Dos ''ans'', Put Redis ''ans.alice'' (BIdent ''idA''),
                 Put Dos ''ans'' (BRecords [(''alice'', Some ''idA'')]), Get Redis ''names.idA'',
                 Put Redis ''ans.alice'' (BIdent ''idB''),
                 Put Dos ''ans'' (BRecords [(''alice'', Some ''idB'')])]\<rparr>\<rparr>)"
  unfolding after_names_A_def names_A_eq snd_conv
  by (simp add: ans_defs sink_defs pool_defs split_def Let_def)

lemma lookup_eq:
  "get_record a_task the_AddressNameCache the_AddressNameStorage ''alice'' 1
     after_first_save =
  (Some (Ident ''idA''),
     \<lparr>ans_cache = [''all_records'' \<mapsto> \<lparr>entry_value = Some (Records [(''alice'', Some ''idA'')]),
                        expireAt = 300, refreshAt = 268\<rparr>,
                   ''alice'' \<mapsto> \<lparr>entry_value = Some (Ident ''idA''), expireAt = 301, refreshAt = 269\<rparr>],
      ans_world = \<lparr>redis_up = True, dos_up = True,
              redis_store = [(''ans.alice'', BIdent ''idA'')],
              dos_store = [(''ans'', BRecords [(''alice'', Some ''idA'')])],
              trace = [Get Dos ''ans'', Put Redis ''ans.alice'' (BIdent ''idA''),
                 Put Dos ''ans'' (BRecords [(''alice'', Some ''idA'')]), Get Redis ''ans.alice'']\<rparr>\<rparr>)"
  unfolding after_first_save_eq
  by (simp add: ans_defs sink_defs pool_defs split_def Let_def)

lemma rebind_eq:
  "save_record a_task the_AddressNameCache the_AddressNameStorage ''alice'' (Some ''idB'') 2
     after_lookup =
  (Inr True,
     \<lparr>ans_cache = [''alice'' \<mapsto> \<lparr>entry_value = Some (Ident ''idA''), expireAt = 301, refreshAt = 269\<rparr>,
                   ''all_records'' \<mapsto> \<lparr>entry_value = Some (Records [(''alice'', Some ''idB'')]),
                        expireAt = 302, refreshAt = 270\<rparr>],
      ans_world = \<lparr>redis_up = True, dos_up = True,
              redis_store = [(''ans.alice'', BIdent ''idB'')],
              dos_store = [(''ans'', BRecords [(''alice'', Some ''idB'')])],
              trace = [Get Dos ''ans'', Put Redis ''ans.alice'' (BIdent ''idA''),
                 Put Dos ''ans'' (BRecords [(''alice'', Some ''idA'')]), Get Redis ''ans.alice'',
                 Put Redis ''ans.alice'' (BIdent ''idB''),
                 Put Dos ''ans'' (BRecords [(''alice'', Some ''idB'')])]\<rparr>\<rparr>)"
  unfolding after_lookup_def lookup_eq snd_conv
  by (simp add: ans_defs sink_defs pool_defs split_def Let_def)

text \<open>
  C4. The claim fails on the code. \<^verbatim>\<open>alice\<close> is registered for \<^verbatim>\<open>idA\<close>, the names of \<^verbatim>\<open>idA\<close>
  are asked for (\<^verbatim>\<open>alice\<close>), \<^verbatim>\<open>alice\<close> is registered for \<^verbatim>\<open>idB\<close>: the storage now has
  \<^verbatim>\<open>alice\<close> for \<^verbatim>\<open>idB\<close>, and the names of \<^verbatim>\<open>idA\<close> still contain \<^verbatim>\<open>alice\<close>. \<^verbatim>\<open>save_record\<close>
  erased the pool entry of \<^verbatim>\<open>idB\<close>, the identifier it was given, and left the one of \<^verbatim>\<open>idA\<close>.
\<close>

theorem reassigned_name_stays_with_old_identifier:
  "fst (save_record a_task the_AddressNameCache the_AddressNameStorage ''alice'' (Some ''idA'') 0
          ans_empty) = Inr True
   \<and> fst (AddressNameTable_get_names a_task the_AddressNameCache the_AddressNameStorage ''idA'' 1
            after_first_save) = {''alice''}
   \<and> fst (save_record a_task the_AddressNameCache the_AddressNameStorage ''alice'' (Some ''idB'') 2
            after_names_A) = Inr True
   \<and> map_of (dos_store (ans_world after_second_save)) ''ans''
       = Some (BRecords [(''alice'', Some ''idB'')])
   \<and> fst (AddressNameTable_get_names a_task the_AddressNameCache the_AddressNameStorage ''idA'' 3
            after_second_save) = {''alice''}
   \<and> fst (AddressNameTable_get_names a_task the_AddressNameCache the_AddressNameStorage ''idB'' 3
            after_second_save) = {''alice''}"
proof -
  have a: "fst (save_record a_task the_AddressNameCache the_AddressNameStorage ''alice''
                  (Some ''idA'') 0 ans_empty) = Inr True"
    by (simp add: ans_defs sink_defs pool_defs split_def Let_def)
  show ?thesis
    unfolding after_second_save_def second_save_eq names_A_eq snd_conv fst_conv using a
    by (simp add: ans_defs sink_defs pool_defs split_def Let_def)
qed

text \<open>
  C5. The claim fails on the code. \<^verbatim>\<open>alice\<close> is registered for \<^verbatim>\<open>idA\<close> and looked up, which
  leaves \<^verbatim>\<open>idA\<close> in the pool under \<^verbatim>\<open>alice\<close>. She is then registered for \<^verbatim>\<open>idB\<close>: Redis and
  the storage have \<^verbatim>\<open>idB\<close>, and the next \<^verbatim>\<open>get_record\<close> still answers \<^verbatim>\<open>idA\<close>.
\<close>

theorem rebound_name_reads_old_identifier:
  "fst (get_record a_task the_AddressNameCache the_AddressNameStorage ''alice'' 1 after_first_save)
     = Some (Ident ''idA'')
   \<and> fst (save_record a_task the_AddressNameCache the_AddressNameStorage ''alice'' (Some ''idB'') 2
            after_lookup) = Inr True
   \<and> map_of (dos_store (ans_world after_rebind)) ''ans'' = Some (BRecords [(''alice'', Some ''idB'')])
   \<and> map_of (redis_store (ans_world after_rebind)) ''ans.alice'' = Some (BIdent ''idB'')
   \<and> fst (get_record a_task the_AddressNameCache the_AddressNameStorage ''alice'' 3 after_rebind)
       = Some (Ident ''idA'')"
  unfolding after_rebind_def rebind_eq lookup_eq snd_conv fst_conv
  by (simp add: ans_defs sink_defs pool_defs split_def Let_def)

text \<open>
  C10. When the registry that \<^verbatim>\<open>save_record\<close> loads is a dict, its result is the answer of
  the storage's \<^verbatim>\<open>save_records\<close>, \<open>ok2\<close>; the answer of Redis, \<open>ok1\<close>, is in no part of the
  result. Whatever \<open>ok2\<close> is, the table it leaves has the pool entry of the identifier
  erased, the registry's entry holding the changed registry, and the world after the
  Redis call and the storage call.
\<close>

theorem save_record_returns_storage_result:
  assumes "load_records task dos now
             (t\<lparr>ans_cache := (case ident of Some i \<Rightarrow> CachePool_erase i (ans_cache t)
                                | None \<Rightarrow> ans_cache t)\<rparr>) = (Records rs, t1)"
      and "redis_save_record redis name (map_option Ident ident) (ans_world t1) = (ok1, w2)"
      and "dos_save_records dos (AList.update name ident rs) w2 = (ok2, w3)"
  shows "save_record task redis dos name ident now t =
           (Inr ok2,
            t\<lparr>ans_cache :=
                 CachePool_update AllTask_ALL_KEY (Some (Records (AList.update name ident rs)))
                   (MEM_CACHE_EXPIRES task) (MEM_CACHE_REFRESH task) now
                   (case ident of Some i \<Rightarrow> CachePool_erase i (ans_cache t)
                    | None \<Rightarrow> ans_cache t),
              ans_world := w3\<rparr>)"
proof -
  let ?p0 = "case ident of Some i \<Rightarrow> CachePool_erase i (ans_cache t) | None \<Rightarrow> ans_cache t"
  let ?t0 = "case ident of Some i \<Rightarrow> t\<lparr>ans_cache := CachePool_erase i (ans_cache t)\<rparr> | None \<Rightarrow> t"
  have t0: "?t0 = t\<lparr>ans_cache := ?p0\<rparr>" by (cases ident) simp_all
  have c1: "ans_cache t1 = fst (snd (DbTask_load task AllTask_ALL_KEY (AllTask_read_data dos)
                                       now ?p0 (ans_world t)))"
    using assms(1) by (auto simp add: load_records_def split_def Let_def)
  have pool: "CachePool_update AllTask_ALL_KEY v e m now (ans_cache t1) =
              CachePool_update AllTask_ALL_KEY v e m now ?p0" for v e m
    unfolding c1 by (rule DbTask_load_then_update)
  have same: "a\<lparr>ans_cache := P, ans_world := W\<rparr> = b\<lparr>ans_cache := P, ans_world := W\<rparr>"
    for a b :: "'a AddressNameTable" and P W
    by (cases a, cases b) simp
  have "save_record task redis dos name ident now t =
          (Inr ok2,
           t1\<lparr>ans_cache :=
                 CachePool_update AllTask_ALL_KEY (Some (Records (AList.update name ident rs)))
                   (MEM_CACHE_EXPIRES task) (MEM_CACHE_REFRESH task) now (ans_cache t1),
               ans_world := w3\<rparr>)"
    unfolding save_record_def t0 using assms by (simp add: Let_def)
  then show ?thesis
    unfolding pool by (simp add: same[where a=t1 and b=t])
qed

text \<open>The witness: the storage cannot be reached, and \<^verbatim>\<open>bob\<close> is registered for \<^verbatim>\<open>idA\<close>. The
  answer is \<^verbatim>\<open>False\<close>; the pool has lost the names of \<^verbatim>\<open>idA\<close> and holds the registry with
  \<^verbatim>\<open>bob\<close>; Redis holds \<^verbatim>\<open>bob\<close>; the storage holds what it held.\<close>

theorem save_record_returns_storage_result_witness:
  "fst (save_record a_task the_AddressNameCache the_AddressNameStorage ''bob'' (Some ''idA'') 2
          storage_down) = Inr False
   \<and> ans_cache (snd (save_record a_task the_AddressNameCache the_AddressNameStorage ''bob''
                       (Some ''idA'') 2 storage_down)) ''idA'' = None
   \<and> ans_cache (snd (save_record a_task the_AddressNameCache the_AddressNameStorage ''bob''
                       (Some ''idA'') 2 storage_down)) ''all_records''
       = Some \<lparr>entry_value = Some (Records [(''alice'', Some ''idA''), (''bob'', Some ''idA'')]),
                expireAt = 302, refreshAt = 270\<rparr>
   \<and> redis_store (ans_world (snd (save_record a_task the_AddressNameCache
                       the_AddressNameStorage ''bob'' (Some ''idA'') 2 storage_down)))
       = [(''ans.alice'', BIdent ''idA''), (''ans.bob'', BIdent ''idA'')]
   \<and> dos_store (ans_world (snd (save_record a_task the_AddressNameCache
                       the_AddressNameStorage ''bob'' (Some ''idA'') 2 storage_down)))
       = [(''ans'', BRecords [(''alice'', Some ''idA'')])]"
proof -
  let ?t1 = "storage_down\<lparr>ans_cache := CachePool_erase ''idA'' (ans_cache storage_down)\<rparr>"
  let ?w2 = "snd (redis_save_record the_AddressNameCache ''bob'' (Some (Ident ''idA''))
                    (ans_world ?t1))"
  let ?rs = "[(''alice'', Some ''idA'')]"
  have h1: "load_records a_task the_AddressNameStorage 2
              (storage_down\<lparr>ans_cache :=
                 (case Some ''idA'' of Some i \<Rightarrow> CachePool_erase i (ans_cache storage_down)
                  | None \<Rightarrow> ans_cache storage_down)\<rparr>) = (Records ?rs, ?t1)"
    by (simp add: storage_down_def ans_defs pool_defs sink_defs)
  have h2: "redis_save_record the_AddressNameCache ''bob'' (map_option Ident (Some ''idA''))
              (ans_world ?t1) = (True, ?w2)"
    by (simp add: storage_down_def ans_defs sink_defs)
  have h3: "dos_save_records the_AddressNameStorage (AList.update ''bob'' (Some ''idA'') ?rs) ?w2
              = (False, snd (dos_save_records the_AddressNameStorage
                               (AList.update ''bob'' (Some ''idA'') ?rs) ?w2))"
    by (simp add: storage_down_def ans_defs sink_defs)
  show ?thesis
    unfolding save_record_returns_storage_result[OF h1 h2 h3]
    by (simp add: storage_down_def ans_defs sink_defs pool_defs)
qed

subsection \<open>Presence and socket addresses\<close>

lemmas act_defs = get_active_users_def ActTask_read_data_def ActTask_def ActTask_cache_key_def
  ActiveTable_init_def clear_socket_addresses_def add_socket_address_def
  remove_socket_address_def create_database_def Database_def
  Database_clear_socket_addresses_def the_LoginCache_def

lemma add_socket_address_map:
  "socket_address (snd (add_socket_address redis i a t)) =
     (socket_address t)(i \<mapsto> insert a (case socket_address t i of None \<Rightarrow> {} | Some s \<Rightarrow> s))"
  by (simp add: add_socket_address_def Let_def)

lemma remove_socket_address_map:
  "socket_address (snd (remove_socket_address redis i a t)) =
     (case socket_address t i of
        None \<Rightarrow> socket_address t
      | Some s \<Rightarrow> if s - {a} = {} then (socket_address t)(i := None)
                  else (socket_address t)(i \<mapsto> s - {a}))"
  by (simp add: remove_socket_address_def Let_def split: option.splits)

lemma apply_op_keeps_sets_nonempty:
  assumes "\<forall>i s. socket_address t i = Some s \<longrightarrow> s \<noteq> {}"
  shows "\<forall>i s. socket_address (apply_op redis t op) i = Some s \<longrightarrow> s \<noteq> {}"
proof (cases op)
  case (Add j a)
  then show ?thesis using assms by (auto simp add: add_socket_address_map)
next
  case (Remove j a)
  then show ?thesis using assms
    by (auto simp add: remove_socket_address_map split: option.splits if_splits)
qed

lemma run_ops_keeps_sets_nonempty:
  "\<forall>i s. socket_address t i = Some s \<longrightarrow> s \<noteq> {} \<Longrightarrow>
   \<forall>i s. socket_address (run_ops redis ops t) i = Some s \<longrightarrow> s \<noteq> {}"
  unfolding run_ops_def
proof (induction ops arbitrary: t)
  case Nil
  then show ?case by simp
next
  case (Cons op ops)
  from Cons.prems have "\<forall>i s. socket_address (apply_op redis t op) i = Some s \<longrightarrow> s \<noteq> {}"
    by (rule apply_op_keeps_sets_nonempty)
  then show ?case using Cons.IH by simp
qed

text \<open>
  C9. Starting from the table as its constructor leaves it, after any sequence of
  \<^verbatim>\<open>add_socket_address\<close> and \<^verbatim>\<open>remove_socket_address\<close> every identifier the dict holds has a
  non-empty set; the two operations keep that property from any table that has it. An
  identifier without an entry gets the set of the one address; two adds of different
  addresses give a set of two; removing the only address of an identifier answers \<^verbatim>\<open>None\<close>
  and removes its entry.
\<close>

theorem socket_sets_never_empty:
  "(\<forall>i s. socket_address (run_ops redis ops (ActiveTable_init pool w)) i = Some s \<longrightarrow> s \<noteq> {})
   \<and> ((\<forall>i s. socket_address t i = Some s \<longrightarrow> s \<noteq> {}) \<longrightarrow>
       (\<forall>i s. socket_address (run_ops redis ops t) i = Some s \<longrightarrow> s \<noteq> {}))
   \<and> (socket_address t i = None \<longrightarrow>
       fst (add_socket_address redis i a1 t) = {a1}
       \<and> socket_address (snd (add_socket_address redis i a1 t)) i = Some {a1})
   \<and> (socket_address t i = None \<longrightarrow> a1 \<noteq> a2 \<longrightarrow>
       socket_address (run_ops redis [Add i a1, Add i a2] t) i = Some {a1, a2}
       \<and> card {a1, a2} = 2)
   \<and> (socket_address t i = Some {a1} \<longrightarrow>
       fst (remove_socket_address redis i a1 t) = None
       \<and> socket_address (snd (remove_socket_address redis i a1 t)) i = None)"
proof -
  have init: "\<forall>i s. socket_address (ActiveTable_init pool w) i = Some s \<longrightarrow> s \<noteq> {}"
    by (simp add: ActiveTable_init_def)
  show ?thesis
    using run_ops_keeps_sets_nonempty[OF init, of redis ops]
      run_ops_keeps_sets_nonempty[of t redis ops]
    by (auto simp add: run_ops_def add_socket_address_map remove_socket_address_map
        add_socket_address_def remove_socket_address_def Let_def)
qed


text \<open>The witness: two connections of \<^verbatim>\<open>alice\<close>, and the removal of her only one.\<close>

theorem socket_sets_never_empty_witness:
  "socket_address (run_ops the_LoginCache
       [Add ''alice'' (''10.0.0.1'', 9394), Add ''alice'' (''10.0.0.2'', 9394)]
       (ActiveTable_init Map.empty empty_sinks)) ''alice''
     = Some {(''10.0.0.1'', 9394), (''10.0.0.2'', 9394)}
   \<and> {(''10.0.0.1'', 9394 :: int), (''10.0.0.2'', 9394)} \<noteq> {}
   \<and> card {(''10.0.0.1'', 9394 :: int), (''10.0.0.2'', 9394)} = 2
   \<and> socket_address one_connection ''alice'' = Some {(''10.0.0.1'', 9394)}
   \<and> fst (remove_socket_address the_LoginCache ''alice'' (''10.0.0.1'', 9394) one_connection) = None
   \<and> socket_address (snd (remove_socket_address the_LoginCache ''alice'' (''10.0.0.1'', 9394)
                             one_connection)) ''alice'' = None"
proof -
  let ?t0 = "ActiveTable_init Map.empty empty_sinks :: sinks ActiveTable"
  let ?a1 = "(''10.0.0.1'', 9394 :: int)" and ?a2 = "(''10.0.0.2'', 9394 :: int)"
  have none: "socket_address ?t0 ''alice'' = None"
    by (simp add: ActiveTable_init_def)
  have one: "socket_address one_connection ''alice'' = Some {?a1}"
    by (simp add: one_connection_def add_socket_address_def ActiveTable_init_def Let_def)
  have ne: "?a1 \<noteq> ?a2" by simp
  note T1 = socket_sets_never_empty[of the_LoginCache "[Add ''alice'' ?a1, Add ''alice'' ?a2]"
              Map.empty empty_sinks ?t0 "''alice''" ?a1 ?a2]
  note T2 = socket_sets_never_empty[of the_LoginCache "[]" Map.empty empty_sinks one_connection
              "''alice''" ?a1 ?a2]
  from T1 none ne
  have two: "socket_address (run_ops the_LoginCache [Add ''alice'' ?a1, Add ''alice'' ?a2] ?t0)
               ''alice'' = Some {?a1, ?a2} \<and> card {?a1, ?a2} = 2"
    by blast
  from T1 two have nonempty: "{?a1, ?a2} \<noteq> {}" by blast
  from T2 one
  have gone: "fst (remove_socket_address the_LoginCache ''alice'' ?a1 one_connection) = None
      \<and> socket_address (snd (remove_socket_address the_LoginCache ''alice'' ?a1 one_connection))
            ''alice'' = None"
    by blast
  from two nonempty one gone show ?thesis by blast
qed

lemma presence_read_eq:
  "presence_read =
     \<lparr>session_cache = [''active_users'' \<mapsto> \<lparr>entry_value = Some {''alice''}, expireAt = 60,
                                                 refreshAt = 52\<rparr>],
      socket_address = Map.empty,
      active_world = empty_sinks\<lparr>redis_store := [(''active_users'', BUsers [''alice''])],
                                   trace := [Get Redis ''active_users'']\<rparr>\<rparr>"
  by (simp add: presence_read_def act_defs pool_defs sink_defs)

text \<open>
  C7, as stated, fails: ten seconds after the table read \<^verbatim>\<open>alice\<close> from Redis, Redis knows
  \<^verbatim>\<open>bob\<close> and \<^verbatim>\<open>get_active_users\<close> answers \<^verbatim>\<open>alice\<close>, from the cache pool.
\<close>

theorem active_users_from_pool_counterexample:
  "fst (get_active_users the_LoginCache 10 presence_changed) = {''alice''}
   \<and> fst (redis_get_active_users the_LoginCache (active_world presence_changed)) = Some {''bob''}"
  unfolding presence_changed_def presence_read_eq
  by (simp add: act_defs pool_defs sink_defs)

text \<open>
  C7, amended. \<^verbatim>\<open>get_active_users\<close> never reads the dict of socket addresses and has no
  durable tier; it goes through the task's \<^verbatim>\<open>load\<close>. When the cache pool has no usable
  entry under \<^verbatim>\<open>'active_users'\<close>, the result is what Redis answers at that moment, with
  absent or empty returned as the empty set. When the pool holds a fresh entry (life span
  60 s, margin 8 s), the result is that entry and no sink is called.
\<close>

theorem active_users_through_the_pool:
  "get_active_users redis now (t\<lparr>socket_address := m\<rparr>) =
     (fst (get_active_users redis now t), (snd (get_active_users redis now t))\<lparr>socket_address := m\<rparr>)
   \<and> (fst (CachePool_fetch ActTask_cache_key now (session_cache t)) = None \<longrightarrow>
       fst (get_active_users redis now t) =
         (case fst (redis_get_active_users redis (active_world t)) of
            None \<Rightarrow> {} | Some us \<Rightarrow> us))
   \<and> (session_cache t ActTask_cache_key = Some e \<longrightarrow> entry_value e = Some us \<longrightarrow>
       now < refreshAt e \<longrightarrow> now < expireAt e \<longrightarrow>
         get_active_users redis now t = (us, t))"
proof -
  have a: "get_active_users redis now (t\<lparr>socket_address := m\<rparr>) =
     (fst (get_active_users redis now t), (snd (get_active_users redis now t))\<lparr>socket_address := m\<rparr>)"
    by (simp add: get_active_users_def split_def Let_def)
  have b: "fst (get_active_users redis now t) =
         (case fst (redis_get_active_users redis (active_world t)) of
            None \<Rightarrow> {} | Some us \<Rightarrow> us)"
    if "fst (CachePool_fetch ActTask_cache_key now (session_cache t)) = None"
    using that
    by (cases "CachePool_fetch ActTask_cache_key now (session_cache t)")
       (auto simp add: get_active_users_def DbTask_load_def ActTask_read_data_def split_def
          Let_def split: option.splits)
  have c: "get_active_users redis now t = (us, t)"
    if "session_cache t ActTask_cache_key = Some e" "entry_value e = Some us"
       "now < refreshAt e" "now < expireAt e"
    using that by (simp add: get_active_users_def DbTask_load_fresh)
  from a b c show ?thesis by blast
qed

text \<open>The witness: a first read at time 0 asks Redis; the read at time 10 is answered by
  the entry the first one left, and changes nothing.\<close>

theorem active_users_through_the_pool_witness:
  "fst (get_active_users the_LoginCache 0
          (ActiveTable_init Map.empty
             (empty_sinks\<lparr>redis_store := [(''active_users'', BUsers [''alice''])]\<rparr>)))
     = {''alice''}
   \<and> get_active_users the_LoginCache 10 presence_changed = ({''alice''}, presence_changed)"
proof -
  let ?w = "empty_sinks\<lparr>redis_store := [(''active_users'', BUsers [''alice''])]\<rparr>"
  let ?t = "ActiveTable_init Map.empty ?w :: sinks ActiveTable"
  let ?e = "\<lparr>entry_value = Some {''alice''}, expireAt = 60, refreshAt = 52\<rparr> :: ID set CacheEntry"
  have miss: "fst (CachePool_fetch ActTask_cache_key 0 (session_cache ?t)) = None"
    by (simp add: ActiveTable_init_def CachePool_fetch_def)
  have redis: "fst (redis_get_active_users the_LoginCache (active_world ?t)) = Some {''alice''}"
    by (simp add: ActiveTable_init_def the_LoginCache_def sink_defs)
  have held: "session_cache presence_changed ActTask_cache_key = Some ?e"
    unfolding presence_changed_def presence_read_eq by (simp add: ActTask_cache_key_def)
  from active_users_through_the_pool[where redis=the_LoginCache and now=0 and t="?t"] miss redis
  have first: "fst (get_active_users the_LoginCache 0 ?t) = {''alice''}"
    by simp
  from active_users_through_the_pool[where redis=the_LoginCache and now=10
         and t=presence_changed and e="?e" and us="{''alice''}"] held
  have second: "get_active_users the_LoginCache 10 presence_changed = ({''alice''}, presence_changed)"
    by simp
  from first second show ?thesis by blast
qed

text \<open>
  C8. \<^verbatim>\<open>create_database\<close> runs \<^verbatim>\<open>clear_socket_addresses\<close> once, on the table it has just
  built and before it returns the database. Afterwards all socket-address state is clear:
  the dict of socket addresses of the process is empty, the cache pool has no entry of the
  active users, and the world is the one after one clearing call of Redis, for every pool
  and world the start-up finds. On any table the routine erases that pool entry and has
  Redis clear its records.
\<close>

theorem clear_socket_addresses_at_startup:
  "socket_address (create_database redis pool w) = Map.empty
   \<and> session_cache (create_database redis pool w) ActTask_cache_key = None
   \<and> CachePool_fetch ActTask_cache_key now (session_cache (create_database redis pool w))
       = (None, False)
   \<and> active_world (create_database redis pool w) = redis_clear_socket_addresses redis w
   \<and> session_cache (clear_socket_addresses redis t) ActTask_cache_key = None
   \<and> CachePool_fetch ActTask_cache_key now (session_cache (clear_socket_addresses redis t))
       = (None, False)
   \<and> active_world (clear_socket_addresses redis t)
       = redis_clear_socket_addresses redis (active_world t)"
  by (simp add: clear_socket_addresses_def create_database_def Database_def
      Database_clear_socket_addresses_def ActiveTable_init_def CachePool_erase_def
      CachePool_fetch_def)

text \<open>The routine does not write the dict: it is empty after the start-up because the
  constructor made it so.\<close>

lemma clear_socket_addresses_keeps_dict:
  "socket_address (clear_socket_addresses redis t) = socket_address t"
  by (simp add: clear_socket_addresses_def)

text \<open>On the concrete sinks, with records of an earlier run left in Redis and in the shared
  pool: the start-up leaves nothing of them, and the trace shows the one clearing, which
  here is a sweep of the socket records and the removal of the set of users.\<close>

lemma create_database_trace:
  "create_database the_LoginCache
     [''active_users'' \<mapsto> \<lparr>entry_value = Some {''alice''}, expireAt = 60, refreshAt = 52\<rparr>]
     (empty_sinks\<lparr>redis_store := [(''sockets.alice'', BSockets {(''10.0.0.1'', 9394)}),
                                    (''active_users'', BUsers [''alice''])]\<rparr>)
   = \<lparr>session_cache = Map.empty, socket_address = Map.empty,
      active_world = empty_sinks\<lparr>trace := [Clear Redis, Del Redis ''active_users'']\<rparr>\<rparr>"
  by (simp add: act_defs sink_defs pool_defs)

lemma clear_socket_addresses_other_keys:
  "k \<noteq> ActTask_cache_key \<Longrightarrow>
     session_cache (clear_socket_addresses redis t) k = session_cache t k"
  by (simp add: clear_socket_addresses_def CachePool_erase_def)

subsection \<open>Documents\<close>

lemmas doc_defs = save_document_def store_documents_def get_documents_def DocTask_read_data_def
  DocTask_write_data_def append_cached_def ScanTask_ALL_KEY_def DocumentType_VISA_def
  last_document_def is_expired_def the_DocumentCache_def the_DocumentStorage_def
  a_visa_def older_visa_def newer_visa_def scanned_def alice_on_disk_def

text \<open>The modelled \<^verbatim>\<open>last_document\<close> answers a document of the list.\<close>

lemma last_document_in_list:
  assumes "last_document expired docs dtype = Some od"
  shows "od \<in> set docs"
proof -
  let ?step = "\<lambda>last doc.
              if doc_type doc \<noteq> dtype then last
              else (case last of
                      None \<Rightarrow> Some doc
                    | Some l \<Rightarrow> if expired doc l then last else Some doc)"
  have "foldl ?step acc docs = Some od \<Longrightarrow> acc = Some od \<or> od \<in> set docs" for acc
  proof (induction docs arbitrary: acc)
    case Nil
    then show ?case by simp
  next
    case (Cons d ds)
    from Cons.prems have "foldl ?step (?step acc d) ds = Some od" by simp
    from Cons.IH[OF this] show ?case
      by (auto split: if_splits option.splits)
  qed
  from this[of None] assms show ?thesis
    by (simp add: last_document_def)
qed

text \<open>What \<^verbatim>\<open>store_documents\<close> leaves in the pool, for an identifier that is not the scan
  key.\<close>

lemma store_documents_result:
  "fst (store_documents task redis dos document new now t1) =
     fst (DocTask_write_data redis dos (doc_identifier document) new (doc_world t1))
   \<and> doc_world (snd (store_documents task redis dos document new now t1)) =
     snd (DocTask_write_data redis dos (doc_identifier document) new (doc_world t1))
   \<and> documents_cache (snd (store_documents task redis dos document new now t1))
       (doc_identifier document) =
     Some \<lparr>entry_value = Some new, expireAt = now + MEM_CACHE_EXPIRES task,
            refreshAt = now + (MEM_CACHE_EXPIRES task - MEM_CACHE_REFRESH task)\<rparr>"
  by (simp add: store_documents_def DbTask_save_def CachePool_update_def split_def Let_def)

lemma store_documents_scan_entry:
  assumes "doc_identifier document \<noteq> ScanTask_ALL_KEY"
  shows "(CachePool_fetch ScanTask_ALL_KEY now (documents_cache t1) = (Some all, b) \<longrightarrow>
            CachePool_fetch ScanTask_ALL_KEY now
              (documents_cache (snd (store_documents task redis dos document new now t1)))
            = (Some (all @ [document]), b))
         \<and> (fst (CachePool_fetch ScanTask_ALL_KEY now (documents_cache t1)) = None \<longrightarrow>
            documents_cache (snd (store_documents task redis dos document new now t1))
              ScanTask_ALL_KEY = documents_cache t1 ScanTask_ALL_KEY)"
  using assms
  by (auto simp add: store_documents_def DbTask_save_def CachePool_update_def
      CachePool_fetch_def append_cached_def split_def Let_def
      split: option.splits if_splits)

text \<open>
  C6. For a valid document, let \<open>docs\<close> be the documents \<^verbatim>\<open>get_documents\<close> answers for its
  identifier and \<open>od\<close> the stored document it is compared with (the last one of its type
  or, for a visa without one, the last \<^verbatim>\<open>profile\<close>). When the document is expired against
  \<open>od\<close>, \<^verbatim>\<open>save_document\<close> answers \<^verbatim>\<open>False\<close> and leaves the table as \<^verbatim>\<open>get_documents\<close> left
  it: nothing is written. When it is not, the write cascade runs on the list with \<open>od\<close>
  removed and the document appended, the pool holds that list under the identifier, and
  a scan result the pool holds has the document appended, with its times unchanged.
\<close>

theorem save_document_supersedes:
  "valid document \<longrightarrow>
   get_documents task redis dos (doc_identifier document) now t = (docs, t1) \<longrightarrow>
   (if lookup docs (doc_type document) = None \<and> doc_type document = DocumentType_VISA
    then lookup docs ''profile'' else lookup docs (doc_type document)) = Some od \<longrightarrow>
     (expired document od \<longrightarrow>
        save_document lookup expired task redis dos document now t = (Inr False, t1))
     \<and> (\<not> expired document od \<longrightarrow> od \<in> set docs \<longrightarrow>
        doc_identifier document \<noteq> ScanTask_ALL_KEY \<longrightarrow>
          fst (save_document lookup expired task redis dos document now t) =
            Inr (fst (DocTask_write_data redis dos (doc_identifier document)
                        (remove1 od docs @ [document]) (doc_world t1)))
          \<and> doc_world (snd (save_document lookup expired task redis dos document now t)) =
            snd (DocTask_write_data redis dos (doc_identifier document)
                   (remove1 od docs @ [document]) (doc_world t1))
          \<and> documents_cache (snd (save_document lookup expired task redis dos document now t))
              (doc_identifier document) =
            Some \<lparr>entry_value = Some (remove1 od docs @ [document]),
                   expireAt = now + MEM_CACHE_EXPIRES task,
                   refreshAt = now + (MEM_CACHE_EXPIRES task - MEM_CACHE_REFRESH task)\<rparr>
          \<and> (\<forall>all b.
                CachePool_fetch ScanTask_ALL_KEY now (documents_cache t1) = (Some all, b) \<longrightarrow>
                CachePool_fetch ScanTask_ALL_KEY now
                  (documents_cache (snd (save_document lookup expired task redis dos document
                                           now t)))
                = (Some (all @ [document]), b))
          \<and> (fst (CachePool_fetch ScanTask_ALL_KEY now (documents_cache t1)) = None \<longrightarrow>
                documents_cache (snd (save_document lookup expired task redis dos document now t))
                  ScanTask_ALL_KEY = documents_cache t1 ScanTask_ALL_KEY))"
proof (intro impI)
  assume v: "valid document"
    and g: "get_documents task redis dos (doc_identifier document) now t = (docs, t1)"
    and o: "(if lookup docs (doc_type document) = None \<and> doc_type document = DocumentType_VISA
             then lookup docs ''profile'' else lookup docs (doc_type document)) = Some od"
  let ?new = "remove1 od docs @ [document]"
  have rejected: "save_document lookup expired task redis dos document now t = (Inr False, t1)"
    if "expired document od"
    using v g o that by (simp add: save_document_def Let_def)
  have stored: "save_document lookup expired task redis dos document now t =
                  (Inr (fst (store_documents task redis dos document ?new now t1)),
                   snd (store_documents task redis dos document ?new now t1))"
    if "\<not> expired document od" "od \<in> set docs"
    using v g o that by (simp add: save_document_def Let_def, simp add: split_def)
  show "(expired document od \<longrightarrow>
        save_document lookup expired task redis dos document now t = (Inr False, t1))
     \<and> (\<not> expired document od \<longrightarrow> od \<in> set docs \<longrightarrow>
        doc_identifier document \<noteq> ScanTask_ALL_KEY \<longrightarrow>
          fst (save_document lookup expired task redis dos document now t) =
            Inr (fst (DocTask_write_data redis dos (doc_identifier document)
                        (remove1 od docs @ [document]) (doc_world t1)))
          \<and> doc_world (snd (save_document lookup expired task redis dos document now t)) =
            snd (DocTask_write_data redis dos (doc_identifier document)
                   (remove1 od docs @ [document]) (doc_world t1))
          \<and> documents_cache (snd (save_document lookup expired task redis dos document now t))
              (doc_identifier document) =
            Some \<lparr>entry_value = Some (remove1 od docs @ [document]),
                   expireAt = now + MEM_CACHE_EXPIRES task,
                   refreshAt = now + (MEM_CACHE_EXPIRES task - MEM_CACHE_REFRESH task)\<rparr>
          \<and> (\<forall>all b.
                CachePool_fetch ScanTask_ALL_KEY now (documents_cache t1) = (Some all, b) \<longrightarrow>
                CachePool_fetch ScanTask_ALL_KEY now
                  (documents_cache (snd (save_document lookup expired task redis dos document
                                           now t)))
                = (Some (all @ [document]), b))
          \<and> (fst (CachePool_fetch ScanTask_ALL_KEY now (documents_cache t1)) = None \<longrightarrow>
                documents_cache (snd (save_document lookup expired task redis dos document now t))
                  ScanTask_ALL_KEY = documents_cache t1 ScanTask_ALL_KEY))"
  proof (intro conjI impI)
    assume "expired document od"
    then show "save_document lookup expired task redis dos document now t = (Inr False, t1)"
      by (rule rejected)
  next
    assume a: "\<not> expired document od" "od \<in> set docs"
       "doc_identifier document \<noteq> ScanTask_ALL_KEY"
    note s = stored[OF a(1,2)]
    note r = store_documents_result[of task redis dos document ?new now t1]
    note e = store_documents_scan_entry[OF a(3), of now t1 _ _ task redis dos ?new]
    show "fst (save_document lookup expired task redis dos document now t) =
            Inr (fst (DocTask_write_data redis dos (doc_identifier document) ?new (doc_world t1)))"
      using r by (simp add: s)
    show "doc_world (snd (save_document lookup expired task redis dos document now t)) =
            snd (DocTask_write_data redis dos (doc_identifier document) ?new (doc_world t1))"
      using r by (simp add: s)
    show "documents_cache (snd (save_document lookup expired task redis dos document now t))
              (doc_identifier document) =
            Some \<lparr>entry_value = Some ?new, expireAt = now + MEM_CACHE_EXPIRES task,
                   refreshAt = now + (MEM_CACHE_EXPIRES task - MEM_CACHE_REFRESH task)\<rparr>"
      using r by (simp add: s)
    show "\<forall>all b.
                CachePool_fetch ScanTask_ALL_KEY now (documents_cache t1) = (Some all, b) \<longrightarrow>
                CachePool_fetch ScanTask_ALL_KEY now
                  (documents_cache (snd (save_document lookup expired task redis dos document
                                           now t)))
                = (Some (all @ [document]), b)"
      using e by (simp add: s)
    show "documents_cache (snd (save_document lookup expired task redis dos document now t))
                  ScanTask_ALL_KEY = documents_cache t1 ScanTask_ALL_KEY"
      if "fst (CachePool_fetch ScanTask_ALL_KEY now (documents_cache t1)) = None"
      using e that by (simp add: s)
  qed
qed
text \<open>The witness. Reading the documents of \<^verbatim>\<open>alice\<close> at time 1 finds her visa in the
  storage. The older visa is refused and the table is as the read left it; the newer one
  replaces the stored one in the pool and in both sinks, and the scan result has it
  appended.\<close>

lemma documents_read_eq:
  "get_documents a_task the_DocumentCache the_DocumentStorage ''alice'' 1 scanned =
     ([a_visa],
      \<lparr>documents_cache =
         [''all_documents'' \<mapsto> \<lparr>entry_value = Some [a_visa], expireAt = 3600, refreshAt = 3000\<rparr>,
          ''alice'' \<mapsto> \<lparr>entry_value = Some [a_visa], expireAt = 301, refreshAt = 269\<rparr>],
       doc_world =
         alice_on_disk\<lparr>redis_store := [(''docs.alice'', BDocuments [a_visa])],
                       trace := [Get Redis ''docs.alice'', Get Dos ''docs.alice'',
                                 Put Redis ''docs.alice'' (BDocuments [a_visa])]\<rparr>\<rparr>)"
  by (simp add: get_documents_def DocTask_read_data_def the_DocumentCache_def
      the_DocumentStorage_def scanned_def alice_on_disk_def pool_defs sink_defs split_def Let_def)

theorem save_document_supersedes_witness:
  "save_document (last_document is_expired) is_expired a_task the_DocumentCache
     the_DocumentStorage older_visa 1 scanned =
     (Inr False,
      snd (get_documents a_task the_DocumentCache the_DocumentStorage ''alice'' 1 scanned))
   \<and> fst (save_document (last_document is_expired) is_expired a_task the_DocumentCache
            the_DocumentStorage newer_visa 1 scanned) = Inr True
   \<and> documents_cache (snd (save_document (last_document is_expired) is_expired a_task
         the_DocumentCache the_DocumentStorage newer_visa 1 scanned)) ''alice''
       = Some \<lparr>entry_value = Some [newer_visa], expireAt = 301, refreshAt = 269\<rparr>
   \<and> CachePool_fetch ''all_documents'' 1
         (documents_cache (snd (save_document (last_document is_expired) is_expired a_task
            the_DocumentCache the_DocumentStorage newer_visa 1 scanned)))
       = (Some [a_visa, newer_visa], False)
   \<and> map_of (dos_store (doc_world (snd (save_document (last_document is_expired) is_expired
         a_task the_DocumentCache the_DocumentStorage newer_visa 1 scanned)))) ''docs.alice''
       = Some (BDocuments [newer_visa])"
proof -
  let ?t1 = "snd (get_documents a_task the_DocumentCache the_DocumentStorage ''alice'' 1 scanned)"
  let ?look = "last_document is_expired"
  have v: "valid older_visa" "valid newer_visa"
    by (simp_all add: older_visa_def newer_visa_def a_visa_def)
  have g: "get_documents a_task the_DocumentCache the_DocumentStorage (doc_identifier older_visa)
             1 scanned = ([a_visa], ?t1)"
          "get_documents a_task the_DocumentCache the_DocumentStorage (doc_identifier newer_visa)
             1 scanned = ([a_visa], ?t1)"
    by (simp_all add: documents_read_eq older_visa_def newer_visa_def a_visa_def)
  have o: "(if ?look [a_visa] (doc_type older_visa) = None \<and> doc_type older_visa = DocumentType_VISA
            then ?look [a_visa] ''profile'' else ?look [a_visa] (doc_type older_visa)) = Some a_visa"
          "(if ?look [a_visa] (doc_type newer_visa) = None \<and> doc_type newer_visa = DocumentType_VISA
            then ?look [a_visa] ''profile'' else ?look [a_visa] (doc_type newer_visa)) = Some a_visa"
    by (simp_all add: last_document_def older_visa_def newer_visa_def a_visa_def)
  have x: "is_expired older_visa a_visa" "\<not> is_expired newer_visa a_visa"
    by (simp_all add: is_expired_def older_visa_def newer_visa_def a_visa_def)
  have k: "doc_identifier newer_visa \<noteq> ScanTask_ALL_KEY" "doc_identifier newer_visa = ''alice''"
    by (simp_all add: newer_visa_def a_visa_def ScanTask_ALL_KEY_def)
  have f: "CachePool_fetch ScanTask_ALL_KEY 1 (documents_cache ?t1) = (Some [a_visa], False)"
    unfolding documents_read_eq snd_conv
    by (simp add: ScanTask_ALL_KEY_def CachePool_fetch_def)
  have w: "DocTask_write_data the_DocumentCache the_DocumentStorage ''alice''
             (remove1 a_visa [a_visa] @ [newer_visa]) (doc_world ?t1) =
           (True,
            alice_on_disk
              \<lparr>redis_store := [(''docs.alice'', BDocuments [newer_visa])],
               dos_store := [(''contacts.alice'', BContacts [''bob'']),
                              (''docs.alice'', BDocuments [newer_visa])],
               trace := [Get Redis ''docs.alice'', Get Dos ''docs.alice'',
                         Put Redis ''docs.alice'' (BDocuments [a_visa]),
                         Put Redis ''docs.alice'' (BDocuments [newer_visa]),
                         Put Dos ''docs.alice'' (BDocuments [newer_visa])]\<rparr>)"
    unfolding documents_read_eq snd_conv
    by (simp add: DocTask_write_data_def the_DocumentCache_def the_DocumentStorage_def
        alice_on_disk_def sink_defs)
  from save_document_supersedes[where document=older_visa and task=a_task
         and redis=the_DocumentCache and dos=the_DocumentStorage and now=1 and t=scanned
         and docs="[a_visa]" and ?t1.0="?t1" and lookup="?look" and expired=is_expired
         and od=a_visa] v(1) g(1) o(1) x(1)
  have refused: "save_document ?look is_expired a_task the_DocumentCache the_DocumentStorage
                   older_visa 1 scanned = (Inr False, ?t1)"
    by blast
  from save_document_supersedes[where document=newer_visa and task=a_task
         and redis=the_DocumentCache and dos=the_DocumentStorage and now=1 and t=scanned
         and docs="[a_visa]" and ?t1.0="?t1" and lookup="?look" and expired=is_expired
         and od=a_visa] v(2) g(2) o(2) x(2) k(1)
  have accepted:
    "fst (save_document ?look is_expired a_task the_DocumentCache the_DocumentStorage
            newer_visa 1 scanned) =
       Inr (fst (DocTask_write_data the_DocumentCache the_DocumentStorage
                   (doc_identifier newer_visa) (remove1 a_visa [a_visa] @ [newer_visa])
                   (doc_world ?t1)))"
    "doc_world (snd (save_document ?look is_expired a_task the_DocumentCache
            the_DocumentStorage newer_visa 1 scanned)) =
       snd (DocTask_write_data the_DocumentCache the_DocumentStorage
              (doc_identifier newer_visa) (remove1 a_visa [a_visa] @ [newer_visa])
              (doc_world ?t1))"
    "documents_cache (snd (save_document ?look is_expired a_task the_DocumentCache
            the_DocumentStorage newer_visa 1 scanned)) (doc_identifier newer_visa) =
       Some \<lparr>entry_value = Some (remove1 a_visa [a_visa] @ [newer_visa]),
              expireAt = 1 + MEM_CACHE_EXPIRES a_task,
              refreshAt = 1 + (MEM_CACHE_EXPIRES a_task - MEM_CACHE_REFRESH a_task)\<rparr>"
    "\<forall>all b.
       CachePool_fetch ScanTask_ALL_KEY 1 (documents_cache ?t1) = (Some all, b) \<longrightarrow>
       CachePool_fetch ScanTask_ALL_KEY 1
         (documents_cache (snd (save_document ?look is_expired a_task the_DocumentCache
            the_DocumentStorage newer_visa 1 scanned)))
       = (Some (all @ [newer_visa]), b)"
    by simp_all
  from accepted(4) f
  have scan: "CachePool_fetch ScanTask_ALL_KEY 1
         (documents_cache (snd (save_document ?look is_expired a_task the_DocumentCache
            the_DocumentStorage newer_visa 1 scanned)))
       = (Some ([a_visa] @ [newer_visa]), False)"
    by blast
  from refused accepted(1,2,3) scan show ?thesis
    unfolding k(2) w by (simp add: ScanTask_ALL_KEY_def a_task_def alice_on_disk_def)
qed

end
